theory Spec2Isabelle
  imports Complex_Main
begin

section \<open>JavaScript values and errors\<close>

text \<open>
  The dashboard script works on whatever \<^verbatim>\<open>res.json()\<close> returns, so a payload is an
  arbitrary JSON value. Numbers are never computed with: the script only tests them for
  truthiness and prints them, so a number is carried as a rational and printing is left
  to the host (a parameter of the environment below). Strings are byte strings; the three
  characters outside ASCII that the script contains are written in UTF-8.
\<close>

datatype jsval =
    JUndefined
  | JNull
  | JBool bool
  | JNum rat
  | JStr string
  | JArr "jsval list"
  | JObj "(string \<times> jsval) list"

datatype js_error =
    Error string  \<comment> \<open>\<^verbatim>\<open>new Error(message)\<close>\<close>
  | TypeError
  | SyntaxError
  | OtherError string

text \<open>The okina of the region label (U+02BB), the middle dot (U+00B7), the em dash
  (U+2014) and the line feed of the template literals.\<close>

definition okina :: string where
  "okina = [CHR 0xCA, CHR 0xBB]"

definition middot :: string where
  "middot = [CHR 0xC2, CHR 0xB7]"

definition emdash :: string where
  "emdash = [CHR 0xE2, CHR 0x80, CHR 0x94]"

definition nl :: string where
  "nl = [CHR 0x0A]"

text \<open>Truthiness, as \<^verbatim>\<open>||\<close>, \<^verbatim>\<open>!!\<close>, \<^verbatim>\<open>?:\<close> and \<^verbatim>\<open>if\<close> test it.\<close>

fun truthy :: "jsval \<Rightarrow> bool" where
  "truthy JUndefined = False"
| "truthy JNull = False"
| "truthy (JBool b) = b"
| "truthy (JNum r) = (r \<noteq> 0)"
| "truthy (JStr s) = (s \<noteq> [])"
| "truthy (JArr xs) = True"
| "truthy (JObj kvs) = True"

text \<open>\<^verbatim>\<open>a || b\<close>\<close>

definition js_or :: "jsval \<Rightarrow> jsval \<Rightarrow> jsval" where
  "js_or a b = (if truthy a then a else b)"

text \<open>
  Reading a property \<^verbatim>\<open>v.name\<close>. On \<^verbatim>\<open>undefined\<close> and \<^verbatim>\<open>null\<close> it throws a TypeError; on an
  object it is the stored value or \<^verbatim>\<open>undefined\<close>. The association list of a \<open>JObj\<close> stands
  for the parsed object: a key is looked up with \<open>map_of\<close>. The script only reads the names
  \<^verbatim>\<open>years\<close>, \<^verbatim>\<open>hawaii\<close>, \<^verbatim>\<open>other_states_avg\<close>, \<^verbatim>\<open>title\<close>, \<^verbatim>\<open>unit\<close>, \<^verbatim>\<open>source\<close>, \<^verbatim>\<open>notes\<close>,
  \<^verbatim>\<open>last_updated_utc\<close> and \<^verbatim>\<open>human_url\<close>, none of which a primitive or an array has.
\<close>

fun get_prop :: "jsval \<Rightarrow> string \<Rightarrow> js_error + jsval" where
  "get_prop JUndefined k = Inl TypeError"
| "get_prop JNull k = Inl TypeError"
| "get_prop (JObj kvs) k = Inr (case map_of kvs k of None \<Rightarrow> JUndefined | Some v \<Rightarrow> v)"
| "get_prop v k = Inr JUndefined"

section \<open>The host environment\<close>

text \<open>
  A request as \<^verbatim>\<open>fetch(url, { cache: ... })\<close> issues it, and a response as the script
  reads it: the \<^verbatim>\<open>ok\<close> flag and the outcome of \<^verbatim>\<open>res.json()\<close>. An awaited promise either
  settles (fulfilled \<open>Inr\<close>, rejected \<open>Inl\<close>) or never does (\<open>None\<close>).
\<close>

record request =
  url :: string
  cache :: string

record response =
  ok :: bool
  json :: "(js_error + jsval) option"

text \<open>
  Conversion to a string, as template interpolation and \<^verbatim>\<open>" " + unit\<close> perform it.
  The host prints numbers (\<open>num\<close> below). An array joins its elements with commas,
  printing \<^verbatim>\<open>null\<close> and \<^verbatim>\<open>undefined\<close> elements as nothing; the first element that cannot
  be converted makes the conversion throw. A parsed object inherits \<^verbatim>\<open>toString\<close> and prints
  as \<^verbatim>\<open>[object Object]\<close>, unless it has a property of its own named \<^verbatim>\<open>toString\<close>: that
  value, coming from JSON, is not a function, and since \<^verbatim>\<open>valueOf\<close> gives no primitive
  either, the conversion throws a TypeError.
\<close>

fun collect :: "(js_error + 'a) list \<Rightarrow> js_error + 'a list" where
  "collect [] = Inr []"
| "collect (Inl e # rs) = Inl e"
| "collect (Inr x # rs) = (case collect rs of Inl e \<Rightarrow> Inl e | Inr xs \<Rightarrow> Inr (x # xs))"

fun join :: "string \<Rightarrow> string list \<Rightarrow> string" where
  "join sep [] = []"
| "join sep [x] = x"
| "join sep (x # y # ys) = x @ sep @ join sep (y # ys)"

fun ToString :: "(rat \<Rightarrow> string) \<Rightarrow> jsval \<Rightarrow> js_error + string" where
  "ToString num JUndefined = Inr ''undefined''"
| "ToString num JNull = Inr ''null''"
| "ToString num (JBool b) = Inr (if b then ''true'' else ''false'')"
| "ToString num (JNum r) = Inr (num r)"
| "ToString num (JStr s) = Inr s"
| "ToString num (JArr xs) =
     (case collect (map (\<lambda>x. if x = JUndefined \<or> x = JNull then Inr [] else ToString num x) xs) of
        Inl e \<Rightarrow> Inl e
      | Inr ss \<Rightarrow> Inr (join '','' ss))"
| "ToString num (JObj kvs) =
     (case map_of kvs ''toString'' of
        None \<Rightarrow> Inr ''[object Object]''
      | Some f \<Rightarrow> Inl TypeError)"

section \<open>The chart configuration\<close>

text \<open>The object literal handed to \<^verbatim>\<open>new Chart(ctx, ...)\<close>, field by field. A field that
  one variant of the script leaves out is \<open>None\<close> there.\<close>

record dataset =
  label :: string
  data :: jsval
  borderColor :: "string option"
  backgroundColor :: "string option"
  borderWidth :: nat
  borderDash :: "nat list option"
  tension :: rat
  pointRadius :: "nat option"

text \<open>What the tooltip callback reads of its argument: \<^verbatim>\<open>ctx.dataset.label\<close> and
  \<^verbatim>\<open>ctx.parsed.y\<close>.\<close>

datatype parsed = PNull | PUndefined | PNum rat

record tooltip_item =
  dataset_label :: string
  parsed_y :: parsed

record chart_options =
  responsive :: bool
  interaction_mode :: string
  interaction_intersect :: bool
  title_display :: bool
  title_text :: jsval
  legend_position :: string
  tooltip_label :: "(tooltip_item \<Rightarrow> js_error + string) option"
  y_title_display :: bool
  y_title_text :: jsval
  y_ticks_callback :: "jsval \<Rightarrow> jsval"
  x_autoSkip :: bool
  x_maxTicksLimit :: nat

record chart_config =
  chart_type :: string
  labels :: jsval
  datasets :: "dataset list"
  options :: chart_options

text \<open>
  Everything the script takes from its host: the transport, the charting library's
  constructor (which may throw), the theme colours read from the style sheet when the
  module is loaded, and the number and date routines of the runtime.
\<close>

record env =
  fetch :: "request \<Rightarrow> (js_error + response) option"
  Chart :: "string \<Rightarrow> chart_config \<Rightarrow> js_error option"
  HI :: string
  OTHER :: string
  num_toString :: "rat \<Rightarrow> string"
  num_toLocaleString :: "rat \<Rightarrow> nat \<Rightarrow> string"
  Date_parse :: "string \<Rightarrow> rat option"
  date_toLocaleString :: "rat \<Rightarrow> string"

section \<open>The page\<close>

text \<open>
  The document is a map from element ids to elements; of an element the script uses
  whether it is a canvas (only a canvas has \<^verbatim>\<open>getContext\<close>) and what it contains. The
  page also keeps, in order, what the script did to the outside world.
\<close>

datatype content = InnerHTML string | TextContent string

record element =
  is_canvas :: bool
  content :: content

datatype event =
    Fetch request
  | NewChart string chart_config
  | SetInnerHTML string string
  | SetTextContent string string
  | ConsoleError js_error

record page =
  elems :: "string \<rightharpoonup> element"
  events :: "event list"

definition getElementById :: "page \<Rightarrow> string \<Rightarrow> element option" where
  "getElementById pg i = elems pg i"

definition emit :: "event \<Rightarrow> page \<Rightarrow> page" where
  "emit e pg = pg\<lparr>events := events pg @ [e]\<rparr>"

text \<open>\<^verbatim>\<open>el.innerHTML = html\<close> and \<^verbatim>\<open>el.textContent = text\<close>, on the element with id \<open>i\<close>;
  on \<^verbatim>\<open>null\<close> the assignment throws.\<close>

definition set_innerHTML :: "string \<Rightarrow> string \<Rightarrow> page \<Rightarrow> (js_error + unit) \<times> page" where
  "set_innerHTML i html pg =
     (case getElementById pg i of
        None \<Rightarrow> (Inl TypeError, pg)
      | Some el \<Rightarrow>
          (Inr (), emit (SetInnerHTML i html)
                     (pg\<lparr>elems := (elems pg)(i \<mapsto> el\<lparr>content := InnerHTML html\<rparr>)\<rparr>)))"

definition set_textContent :: "string \<Rightarrow> string \<Rightarrow> page \<Rightarrow> (js_error + unit) \<times> page" where
  "set_textContent i text pg =
     (case getElementById pg i of
        None \<Rightarrow> (Inl TypeError, pg)
      | Some el \<Rightarrow>
          (Inr (), emit (SetTextContent i text)
                     (pg\<lparr>elems := (elems pg)(i \<mapsto> el\<lparr>content := TextContent text\<rparr>)\<rparr>)))"

text \<open>\<^verbatim>\<open>document.getElementById(i).getContext("2d")\<close>: the drawing context of a canvas is
  identified with the id of its canvas.\<close>

definition getContext2d :: "page \<Rightarrow> string \<Rightarrow> js_error + string" where
  "getContext2d pg i =
     (case getElementById pg i of
        None \<Rightarrow> Inl TypeError
      | Some el \<Rightarrow> if is_canvas el then Inr i else Inl TypeError)"

section \<open>The metric loader\<close>

text \<open>
  \<^verbatim>\<open>loadMetric\<close> is the same in both variants of the script: one \<^verbatim>\<open>fetch\<close> of
  \<^verbatim>\<open>data/v1/<slug>.json\<close> with \<^verbatim>\<open>cache: "no-store"\<close>, an \<^verbatim>\<open>Error\<close> when the response is not
  ok, else whatever \<^verbatim>\<open>res.json()\<close> gives.
\<close>

definition loadMetric :: "env \<Rightarrow> string \<Rightarrow> page \<Rightarrow> (js_error + jsval) option \<times> page" where
  "loadMetric env slug pg =
     (let rq = \<lparr>url = ''data/v1/'' @ slug @ ''.json'', cache = ''no-store''\<rparr>;
          pg' = emit (Fetch rq) pg
      in case fetch env rq of
           None \<Rightarrow> (None, pg')
         | Some (Inl e) \<Rightarrow> (Some (Inl e), pg')
         | Some (Inr res) \<Rightarrow>
             if \<not> ok res then (Some (Inl (Error (''Failed to load '' @ slug))), pg')
             else (json res, pg'))"

section \<open>The panel renderer\<close>

subsection \<open>Chart construction\<close>

text \<open>The tooltip label callback of the themed variant (\<^verbatim>\<open>main.js\<close>), closed over
  \<^verbatim>\<open>unit\<close>; \<^verbatim>\<open>v.toLocaleString(undefined, { maximumFractionDigits: 2 })\<close> is the host's. The
  parts of the template are evaluated from left to right; only the conversion of the
  unit can throw.\<close>

definition tooltipLabel :: "env \<Rightarrow> jsval \<Rightarrow> tooltip_item \<Rightarrow> js_error + string" where
  "tooltipLabel env unit ctx =
     (let shown = (case parsed_y ctx of
                     PNull \<Rightarrow> emdash
                   | PUndefined \<Rightarrow> emdash
                   | PNum v \<Rightarrow> num_toLocaleString env v 2)
      in if truthy unit
         then (case ToString (num_toString env) unit of
                 Inl e \<Rightarrow> Inl e
               | Inr u \<Rightarrow> Inr (dataset_label ctx @ '': '' @ shown @ '' '' @ u))
         else Inr (dataset_label ctx @ '': '' @ shown))"

definition chartConfig ::
  "env \<Rightarrow> jsval \<Rightarrow> jsval \<Rightarrow> jsval \<Rightarrow> jsval \<Rightarrow> jsval \<Rightarrow> chart_config" where
  "chartConfig env years hawaii other title unit =
     \<lparr>chart_type = ''line'',
      labels = years,
      datasets =
        [\<lparr>label = ''Hawai'' @ okina @ ''i'', data = hawaii,
          borderColor = Some (HI env), backgroundColor = Some (HI env),
          borderWidth = 2, borderDash = None, tension = 2 / 10, pointRadius = Some 2\<rparr>,
         \<lparr>label = ''Other U.S. States (avg)'', data = other,
          borderColor = Some (OTHER env), backgroundColor = Some (OTHER env),
          borderWidth = 2, borderDash = Some [6, 4], tension = 2 / 10, pointRadius = Some 2\<rparr>],
      options =
        \<lparr>responsive = True,
         interaction_mode = ''index'', interaction_intersect = False,
         title_display = True, title_text = title,
         legend_position = ''bottom'',
         tooltip_label = Some (tooltipLabel env unit),
         y_title_display = truthy unit, y_title_text = js_or unit (JStr []),
         y_ticks_callback = (\<lambda>v. v),
         x_autoSkip = True, x_maxTicksLimit = 10\<rparr>\<rparr>"

text \<open>The plain variant (\<^verbatim>\<open>part_000\<close>): no colours, no dash, no point radius, no tooltip
  callback.\<close>

definition chartConfig_plain ::
  "jsval \<Rightarrow> jsval \<Rightarrow> jsval \<Rightarrow> jsval \<Rightarrow> jsval \<Rightarrow> chart_config" where
  "chartConfig_plain years hawaii other title unit =
     \<lparr>chart_type = ''line'',
      labels = years,
      datasets =
        [\<lparr>label = ''Hawai'' @ okina @ ''i'', data = hawaii,
          borderColor = None, backgroundColor = None,
          borderWidth = 2, borderDash = None, tension = 2 / 10, pointRadius = None\<rparr>,
         \<lparr>label = ''Other U.S. States (avg)'', data = other,
          borderColor = None, backgroundColor = None,
          borderWidth = 2, borderDash = None, tension = 2 / 10, pointRadius = None\<rparr>],
      options =
        \<lparr>responsive = True,
         interaction_mode = ''index'', interaction_intersect = False,
         title_display = True, title_text = title,
         legend_position = ''bottom'',
         tooltip_label = None,
         y_title_display = truthy unit, y_title_text = js_or unit (JStr []),
         y_ticks_callback = (\<lambda>v. v),
         x_autoSkip = True, x_maxTicksLimit = 10\<rparr>\<rparr>"

text \<open>\<^verbatim>\<open>new Chart(ctx, config)\<close>: the library either throws or draws.\<close>

definition new_Chart :: "env \<Rightarrow> string \<Rightarrow> chart_config \<Rightarrow> page \<Rightarrow> (js_error + unit) \<times> page" where
  "new_Chart env ctx cfg pg =
     (case Chart env ctx cfg of
        Some e \<Rightarrow> (Inl e, pg)
      | None \<Rightarrow> (Inr (), emit (NewChart ctx cfg) pg))"

definition makeLineChart ::
  "env \<Rightarrow> string \<Rightarrow> jsval \<Rightarrow> jsval \<Rightarrow> jsval \<Rightarrow> jsval \<Rightarrow> jsval \<Rightarrow> page
     \<Rightarrow> (js_error + unit) \<times> page" where
  "makeLineChart env ctx years hawaii other title unit pg =
     new_Chart env ctx (chartConfig env years hawaii other title unit) pg"

definition makeLineChart_plain ::
  "env \<Rightarrow> string \<Rightarrow> jsval \<Rightarrow> jsval \<Rightarrow> jsval \<Rightarrow> jsval \<Rightarrow> jsval \<Rightarrow> page
     \<Rightarrow> (js_error + unit) \<times> page" where
  "makeLineChart_plain env ctx years hawaii other title unit pg =
     new_Chart env ctx (chartConfig_plain years hawaii other title unit) pg"

subsection \<open>Metadata formatting\<close>

text \<open>
  \<^verbatim>\<open>new Date(v)\<close> gives a time value or, for an invalid date, none. A string is parsed
  by the host; \<^verbatim>\<open>undefined\<close> is not a number; \<^verbatim>\<open>null\<close> and booleans convert to 0 and 1; a
  number is clipped to the range of dates; an object or array is first converted to a
  primitive, which for a parsed value is its string and throws where the conversion to
  a string throws. \<^verbatim>\<open>toLocaleString\<close> of an invalid date is the text \<^verbatim>\<open>Invalid Date\<close>.
\<close>

definition TimeClip :: "rat \<Rightarrow> rat option" where
  "TimeClip t =
     (if \<bar>t\<bar> > 8640000000000000 then None
      else Some (of_int (if 0 \<le> t then \<lfloor>t\<rfloor> else \<lceil>t\<rceil>)))"

fun new_Date :: "env \<Rightarrow> jsval \<Rightarrow> js_error + rat option" where
  "new_Date env JUndefined = Inr None"
| "new_Date env JNull = Inr (TimeClip 0)"
| "new_Date env (JBool b) = Inr (TimeClip (if b then 1 else 0))"
| "new_Date env (JNum r) = Inr (TimeClip r)"
| "new_Date env (JStr s) = Inr (Date_parse env s)"
| "new_Date env v =
     (case ToString (num_toString env) v of
        Inl e \<Rightarrow> Inl e
      | Inr s \<Rightarrow> Inr (Date_parse env s))"

definition Date_toLocaleString :: "env \<Rightarrow> rat option \<Rightarrow> string" where
  "Date_toLocaleString env d =
     (case d of None \<Rightarrow> ''Invalid Date'' | Some t \<Rightarrow> date_toLocaleString env t)"

text \<open>\<^verbatim>\<open>(payload.notes || []).map(n => `<li>${n}</li>`).join("")\<close>: only an array has
  \<^verbatim>\<open>map\<close>; calling it on anything else throws, and so does the first entry that cannot
  be converted to a string.\<close>

definition listItem :: "env \<Rightarrow> jsval \<Rightarrow> js_error + string" where
  "listItem env n =
     (case ToString (num_toString env) n of
        Inl e \<Rightarrow> Inl e
      | Inr t \<Rightarrow> Inr (''<li>'' @ t @ ''</li>''))"

definition notesItems :: "env \<Rightarrow> jsval \<Rightarrow> js_error + string" where
  "notesItems env ns =
     (case js_or ns (JArr []) of
        JArr xs \<Rightarrow>
          (case collect (map (listItem env) xs) of
             Inl e \<Rightarrow> Inl e
           | Inr items \<Rightarrow> Inr (join [] items))
      | _ \<Rightarrow> Inl TypeError)"

definition srcLine :: "env \<Rightarrow> jsval \<Rightarrow> js_error + string" where
  \<open>srcLine env human_url =
     (if truthy human_url
      then (case ToString (num_toString env) human_url of
              Inl e \<Rightarrow> Inl e
            | Inr u \<Rightarrow> Inr (''<a href="'' @ u @ ''" target="_blank" rel="noopener">Source</a>''))
      else Inr ''Source: federal API'')\<close>

definition notesBlock :: "string \<Rightarrow> string" where
  "notesBlock notes = (if notes \<noteq> [] then ''<ul>'' @ notes @ ''</ul>'' else [])"

definition jsonUrl :: "string \<Rightarrow> string" where
  "jsonUrl slug = ''data/v1/'' @ slug @ ''.json''"

definition csvUrl :: "string \<Rightarrow> string" where
  "csvUrl slug = ''data/v1/csv/'' @ slug @ ''.csv''"

text \<open>The two template literals assigned to \<^verbatim>\<open>el.innerHTML\<close>, line breaks and
  indentation included.\<close>

definition metaHtml :: "string \<Rightarrow> string \<Rightarrow> string \<Rightarrow> string \<Rightarrow> string \<Rightarrow> string" where
  \<open>metaHtml src_line updated json_url csv_url notes =
     nl @ ''    <div>'' @ src_line @ '' '' @ middot @ '' Updated: '' @ updated @ '' '' @ middot @
     nl @ ''      <a href="'' @ json_url @ ''" target="_blank" rel="noopener">Download JSON</a> '' @ middot @
     nl @ ''      <a href="'' @ csv_url @ ''"  target="_blank" rel="noopener">Download CSV</a></div>'' @
     nl @ ''    '' @ notesBlock notes @
     nl @ ''  ''\<close>

definition metaHtml_plain :: "string \<Rightarrow> string \<Rightarrow> string \<Rightarrow> string" where
  \<open>metaHtml_plain src_line updated notes =
     nl @ ''    <div>'' @ src_line @ '' '' @ middot @ '' Updated: '' @ updated @ ''</div>'' @
     nl @ ''    '' @ notesBlock notes @
     nl @ ''  ''\<close>

text \<open>
  \<^verbatim>\<open>setMetaAndDownloads(slug, containerId, payload)\<close> of \<^verbatim>\<open>main.js\<close>, in two steps: the
  constants it computes and the template literal built from them (\<open>metaFragment\<close>),
  then the assignment to \<^verbatim>\<open>el.innerHTML\<close>.
\<close>

definition metaFragment :: "env \<Rightarrow> string \<Rightarrow> jsval \<Rightarrow> js_error + string" where
  "metaFragment env slug payload =
     (case get_prop payload ''source'' of
        Inl e \<Rightarrow> Inl e
      | Inr source \<Rightarrow>
          let src = js_or source (JObj []) in
          (case get_prop payload ''notes'' of
             Inl e \<Rightarrow> Inl e
           | Inr ns \<Rightarrow>
               (case notesItems env ns of
                  Inl e \<Rightarrow> Inl e
                | Inr notes \<Rightarrow>
                    (case get_prop src ''human_url'' of
                       Inl e \<Rightarrow> Inl e
                     | Inr human_url \<Rightarrow>
                         (case srcLine env human_url of
                            Inl e \<Rightarrow> Inl e
                          | Inr src_line \<Rightarrow>
                              (case get_prop payload ''last_updated_utc'' of
                                 Inl e \<Rightarrow> Inl e
                               | Inr stamp \<Rightarrow>
                                   (case new_Date env stamp of
                                      Inl e \<Rightarrow> Inl e
                                    | Inr d \<Rightarrow>
                                        Inr (metaHtml src_line (Date_toLocaleString env d)
                                               (jsonUrl slug) (csvUrl slug) notes))))))))"

definition setMetaAndDownloads ::
  "env \<Rightarrow> string \<Rightarrow> string \<Rightarrow> jsval \<Rightarrow> page \<Rightarrow> (js_error + unit) \<times> page" where
  "setMetaAndDownloads env slug containerId payload pg =
     (case metaFragment env slug payload of
        Inl e \<Rightarrow> (Inl e, pg)
      | Inr html \<Rightarrow> set_innerHTML containerId html pg)"

text \<open>\<^verbatim>\<open>setMeta(el, payload)\<close> of the plain variant, in the same two steps; the element is
  the one with id \<open>containerId\<close>, or \<^verbatim>\<open>null\<close> when the page has none.\<close>

definition metaFragment_plain :: "env \<Rightarrow> jsval \<Rightarrow> js_error + string" where
  "metaFragment_plain env payload =
     (case get_prop payload ''source'' of
        Inl e \<Rightarrow> Inl e
      | Inr source \<Rightarrow>
          let src = js_or source (JObj []) in
          (case get_prop payload ''notes'' of
             Inl e \<Rightarrow> Inl e
           | Inr ns \<Rightarrow>
               (case notesItems env ns of
                  Inl e \<Rightarrow> Inl e
                | Inr notes \<Rightarrow>
                    (case get_prop src ''human_url'' of
                       Inl e \<Rightarrow> Inl e
                     | Inr human_url \<Rightarrow>
                         (case srcLine env human_url of
                            Inl e \<Rightarrow> Inl e
                          | Inr src_line \<Rightarrow>
                              (case get_prop payload ''last_updated_utc'' of
                                 Inl e \<Rightarrow> Inl e
                               | Inr stamp \<Rightarrow>
                                   (case new_Date env stamp of
                                      Inl e \<Rightarrow> Inl e
                                    | Inr d \<Rightarrow>
                                        Inr (metaHtml_plain src_line (Date_toLocaleString env d)
                                               notes))))))))"

definition setMeta :: "env \<Rightarrow> string \<Rightarrow> jsval \<Rightarrow> page \<Rightarrow> (js_error + unit) \<times> page" where
  "setMeta env containerId payload pg =
     (case metaFragment_plain env payload of
        Inl e \<Rightarrow> (Inl e, pg)
      | Inr html \<Rightarrow> set_innerHTML containerId html pg)"

section \<open>The orchestrator\<close>

text \<open>
  The script ends in one \<^verbatim>\<open>async\<close> function that is called at once. Its body is a
  sequence of \<^verbatim>\<open>try\<close>/\<^verbatim>\<open>catch\<close> blocks, one per panel, that differ only in four constants:
  the slug, the id of the canvas, the id of the metadata container and the text shown
  when the panel fails.
\<close>

record panel =
  slug :: string
  chart_id :: string
  meta_id :: string
  unavailable :: string

definition ypll :: panel where
  "ypll = \<lparr>slug = ''public_health_ypll75_rate'', chart_id = ''chart-ypll'',
            meta_id = ''meta-ypll'', unavailable = ''YPLL data unavailable.''\<rparr>"

definition un :: panel where
  "un = \<lparr>slug = ''public_health_uninsured_share'', chart_id = ''chart-uninsured'',
          meta_id = ''meta-uninsured'', unavailable = ''Uninsured data unavailable.''\<rparr>"

definition bb :: panel where
  "bb = \<lparr>slug = ''broadband_adoption_households_share'', chart_id = ''chart-broadband'',
          meta_id = ''meta-broadband'', unavailable = ''Broadband data unavailable.''\<rparr>"

definition rn :: panel where
  "rn = \<lparr>slug = ''electricity_renewables_generation_share'', chart_id = ''chart-renewables'',
          meta_id = ''meta-renewables'', unavailable = ''Renewables data unavailable.''\<rparr>"

text \<open>
  The arguments of the call of \<^verbatim>\<open>makeLineChart\<close>, evaluated from left to right: the
  drawing context of the panel's canvas, then five fields of the loaded document.
\<close>

record chart_args =
  arg_ctx :: string
  arg_years :: jsval
  arg_hawaii :: jsval
  arg_other :: jsval
  arg_title :: jsval
  arg_unit :: jsval

definition chartArgs :: "page \<Rightarrow> panel \<Rightarrow> jsval \<Rightarrow> js_error + chart_args" where
  "chartArgs pg p m =
     (case getContext2d pg (chart_id p) of Inl e \<Rightarrow> Inl e | Inr ctx \<Rightarrow>
      case get_prop m ''years'' of Inl e \<Rightarrow> Inl e | Inr years \<Rightarrow>
      case get_prop m ''hawaii'' of Inl e \<Rightarrow> Inl e | Inr hawaii \<Rightarrow>
      case get_prop m ''other_states_avg'' of Inl e \<Rightarrow> Inl e | Inr other \<Rightarrow>
      case get_prop m ''title'' of Inl e \<Rightarrow> Inl e | Inr title \<Rightarrow>
      case get_prop m ''unit'' of Inl e \<Rightarrow> Inl e | Inr unit \<Rightarrow>
        Inr \<lparr>arg_ctx = ctx, arg_years = years, arg_hawaii = hawaii, arg_other = other,
             arg_title = title, arg_unit = unit\<rparr>)"

text \<open>The body of a \<^verbatim>\<open>try\<close> block of \<^verbatim>\<open>main.js\<close>: load, chart, metadata. \<open>None\<close>: the
  awaited load never settles.\<close>

definition tryBody :: "env \<Rightarrow> panel \<Rightarrow> page \<Rightarrow> (js_error + unit) option \<times> page" where
  "tryBody env p pg =
     (case loadMetric env (slug p) pg of
        (None, pg1) \<Rightarrow> (None, pg1)
      | (Some (Inl e), pg1) \<Rightarrow> (Some (Inl e), pg1)
      | (Some (Inr m), pg1) \<Rightarrow>
          (case chartArgs pg1 p m of
             Inl e \<Rightarrow> (Some (Inl e), pg1)
           | Inr a \<Rightarrow>
               (case makeLineChart env (arg_ctx a) (arg_years a) (arg_hawaii a) (arg_other a)
                       (arg_title a) (arg_unit a) pg1 of
                  (Inl e, pg2) \<Rightarrow> (Some (Inl e), pg2)
                | (Inr _, pg2) \<Rightarrow>
                    (case setMetaAndDownloads env (slug p) (meta_id p) m pg2 of
                       (r, pg3) \<Rightarrow> (Some r, pg3)))))"

text \<open>The \<^verbatim>\<open>catch\<close> block of \<^verbatim>\<open>main.js\<close>:
  \<^verbatim>\<open>const t = document.getElementById(id); if (t) t.textContent = "..."; console.error(e);\<close>\<close>

definition catchBlock :: "panel \<Rightarrow> js_error \<Rightarrow> page \<Rightarrow> (js_error + unit) \<times> page" where
  "catchBlock p e pg =
     (case (case getElementById pg (meta_id p) of
              None \<Rightarrow> (Inr (), pg)
            | Some t \<Rightarrow> set_textContent (meta_id p) (unavailable p) pg) of
        (Inl e', pg1) \<Rightarrow> (Inl e', pg1)
      | (Inr _, pg1) \<Rightarrow> (Inr (), emit (ConsoleError e) pg1))"

definition panelBlock :: "env \<Rightarrow> panel \<Rightarrow> page \<Rightarrow> (js_error + unit) option \<times> page" where
  "panelBlock env p pg =
     (case tryBody env p pg of
        (None, pg1) \<Rightarrow> (None, pg1)
      | (Some (Inr _), pg1) \<Rightarrow> (Some (Inr ()), pg1)
      | (Some (Inl e), pg1) \<Rightarrow> (case catchBlock p e pg1 of (r, pg2) \<Rightarrow> (Some r, pg2)))"

text \<open>Statements in sequence inside the \<^verbatim>\<open>async\<close> function: the next block starts when
  the one before has completed; an exception that leaves a block, or an \<^verbatim>\<open>await\<close> that
  never settles, ends the run there.\<close>

fun runBlocks ::
  "(panel \<Rightarrow> page \<Rightarrow> (js_error + unit) option \<times> page) \<Rightarrow> panel list \<Rightarrow> page
     \<Rightarrow> (js_error + unit) option \<times> page" where
  "runBlocks blk [] pg = (Some (Inr ()), pg)"
| "runBlocks blk (p # ps) pg =
     (case blk p pg of
        (Some (Inr _), pg1) \<Rightarrow> runBlocks blk ps pg1
      | (r, pg1) \<Rightarrow> (r, pg1))"

definition main :: "env \<Rightarrow> page \<Rightarrow> (js_error + unit) option \<times> page" where
  "main env pg = runBlocks (panelBlock env) [ypll, un, bb, rn] pg"

text \<open>The plain variant: two panels, \<^verbatim>\<open>setMeta\<close> in place of \<^verbatim>\<open>setMetaAndDownloads\<close>, and
  a \<^verbatim>\<open>catch\<close> block that writes to the container without testing that it exists.\<close>

definition tryBody_plain :: "env \<Rightarrow> panel \<Rightarrow> page \<Rightarrow> (js_error + unit) option \<times> page" where
  "tryBody_plain env p pg =
     (case loadMetric env (slug p) pg of
        (None, pg1) \<Rightarrow> (None, pg1)
      | (Some (Inl e), pg1) \<Rightarrow> (Some (Inl e), pg1)
      | (Some (Inr m), pg1) \<Rightarrow>
          (case chartArgs pg1 p m of
             Inl e \<Rightarrow> (Some (Inl e), pg1)
           | Inr a \<Rightarrow>
               (case makeLineChart_plain env (arg_ctx a) (arg_years a) (arg_hawaii a)
                       (arg_other a) (arg_title a) (arg_unit a) pg1 of
                  (Inl e, pg2) \<Rightarrow> (Some (Inl e), pg2)
                | (Inr _, pg2) \<Rightarrow>
                    (case setMeta env (meta_id p) m pg2 of
                       (r, pg3) \<Rightarrow> (Some r, pg3)))))"

definition catchBlock_plain :: "panel \<Rightarrow> js_error \<Rightarrow> page \<Rightarrow> (js_error + unit) \<times> page" where
  "catchBlock_plain p e pg =
     (case set_textContent (meta_id p) (unavailable p) pg of
        (Inl e', pg1) \<Rightarrow> (Inl e', pg1)
      | (Inr _, pg1) \<Rightarrow> (Inr (), emit (ConsoleError e) pg1))"

definition panelBlock_plain :: "env \<Rightarrow> panel \<Rightarrow> page \<Rightarrow> (js_error + unit) option \<times> page" where
  "panelBlock_plain env p pg =
     (case tryBody_plain env p pg of
        (None, pg1) \<Rightarrow> (None, pg1)
      | (Some (Inr _), pg1) \<Rightarrow> (Some (Inr ()), pg1)
      | (Some (Inl e), pg1) \<Rightarrow> (case catchBlock_plain p e pg1 of (r, pg2) \<Rightarrow> (Some r, pg2)))"

definition main_plain :: "env \<Rightarrow> page \<Rightarrow> (js_error + unit) option \<times> page" where
  "main_plain env pg = runBlocks (panelBlock_plain env) [bb, rn] pg"

section \<open>Notions used to state the properties\<close>

text \<open>
  What a block reads of the document: which ids exist and which of them are canvases.
  \<open>put\<close> replaces the content of an element, if there is one.
\<close>

definition shape :: "page \<Rightarrow> string \<Rightarrow> bool option" where
  "shape pg i = map_option is_canvas (elems pg i)"

definition put :: "string \<Rightarrow> content \<Rightarrow> page \<Rightarrow> page" where
  "put i c pg =
     pg\<lparr>elems := (\<lambda>j. if j = i then map_option (\<lambda>el. el\<lparr>content := c\<rparr>) (elems pg j)
                       else elems pg j)\<rparr>"

text \<open>The value of \<^verbatim>\<open>v.k\<close> where reading it does not throw, and the number of entries of
  an array.\<close>

definition field :: "jsval \<Rightarrow> string \<Rightarrow> jsval" where
  "field v k = (case get_prop v k of Inl e \<Rightarrow> JUndefined | Inr x \<Rightarrow> x)"

fun array_length :: "jsval \<Rightarrow> nat option" where
  "array_length (JArr xs) = Some (length xs)"
| "array_length v = None"

text \<open>
  Whether a value can be converted to a string, and whether a value can stand as the
  \<^verbatim>\<open>notes\<close> of a payload: a falsy value, or an array whose entries can all be converted.
\<close>

definition printable :: "env \<Rightarrow> jsval \<Rightarrow> bool" where
  "printable env v = (case ToString (num_toString env) v of Inl e \<Rightarrow> False | Inr t \<Rightarrow> True)"

definition notesRenderable :: "env \<Rightarrow> jsval \<Rightarrow> bool" where
  "notesRenderable env v = (case v of JArr xs \<Rightarrow> list_all (printable env) xs | _ \<Rightarrow> \<not> truthy v)"

text \<open>
  What the metadata formatter reads and computes from a payload: the value of
  \<^verbatim>\<open>src.human_url\<close>, the attribution (the constant \<^verbatim>\<open>srcLine\<close>), the printed time stamp and
  the list items (the constant \<^verbatim>\<open>notes\<close>), each where computing it does not throw; and
  whether all three can be computed.
\<close>

definition payloadUrl :: "jsval \<Rightarrow> jsval" where
  "payloadUrl payload = field (js_or (field payload ''source'') (JObj [])) ''human_url''"

definition payloadSrcLine :: "env \<Rightarrow> jsval \<Rightarrow> string" where
  "payloadSrcLine env payload =
     (case srcLine env (payloadUrl payload) of Inl e \<Rightarrow> [] | Inr a \<Rightarrow> a)"

definition payloadUpdated :: "env \<Rightarrow> jsval \<Rightarrow> string" where
  "payloadUpdated env payload =
     (case new_Date env (field payload ''last_updated_utc'') of
        Inl e \<Rightarrow> []
      | Inr d \<Rightarrow> Date_toLocaleString env d)"

definition formattable :: "env \<Rightarrow> jsval \<Rightarrow> bool" where
  "formattable env payload \<longleftrightarrow>
     notesRenderable env (field payload ''notes'') \<and>
     (if truthy (payloadUrl payload) then printable env (payloadUrl payload) else True) \<and>
     printable env (field payload ''last_updated_utc'')"





definition payloadNotes :: "env \<Rightarrow> jsval \<Rightarrow> string" where
  "payloadNotes env payload =
     (case notesItems env (field payload ''notes'') of Inl e \<Rightarrow> [] | Inr notes \<Rightarrow> notes)"

text \<open>The request that loading a slug is expected to issue, what the load returns (it
  does not depend on the page), and whether the awaited load ever settles.\<close>

definition loadRequest :: "string \<Rightarrow> request" where
  "loadRequest s = \<lparr>url = ''data/v1/'' @ s @ ''.json'', cache = ''no-store''\<rparr>"

definition loadResult :: "env \<Rightarrow> string \<Rightarrow> (js_error + jsval) option" where
  "loadResult env s = fst (loadMetric env s \<lparr>elems = Map.empty, events = []\<rparr>)"

definition settles :: "env \<Rightarrow> string \<Rightarrow> bool" where
  "settles env s = (loadResult env s \<noteq> None)"

fun isFetch :: "event \<Rightarrow> bool" where
  "isFetch (Fetch rq) = True"
| "isFetch e = False"

text \<open>
  The events a block adds when it runs on a page, whether it runs to completion, the
  panels of a list that get started (each one only if all before it completed), and the
  result of the whole sequence.
\<close>

definition blockTrace ::
  "(panel \<Rightarrow> page \<Rightarrow> (js_error + unit) option \<times> page) \<Rightarrow> panel \<Rightarrow> page \<Rightarrow> event list" where
  "blockTrace blk p pg = drop (length (events pg)) (events (snd (blk p pg)))"

definition completes ::
  "(panel \<Rightarrow> page \<Rightarrow> (js_error + unit) option \<times> page) \<Rightarrow> page \<Rightarrow> panel \<Rightarrow> bool" where
  "completes blk pg p = (fst (blk p pg) = Some (Inr ()))"

fun launched :: "(panel \<Rightarrow> bool) \<Rightarrow> panel list \<Rightarrow> panel list" where
  "launched c [] = []"
| "launched c (p # ps) = p # (if c p then launched c ps else [])"

fun lastStatus ::
  "(panel \<Rightarrow> (js_error + unit) option) \<Rightarrow> panel list \<Rightarrow> (js_error + unit) option" where
  "lastStatus st [] = Some (Inr ())"
| "lastStatus st (p # ps) = (if st p = Some (Inr ()) then lastStatus st ps else st p)"

definition panelTrace :: "env \<Rightarrow> panel \<Rightarrow> page \<Rightarrow> event list" where
  "panelTrace env = blockTrace (panelBlock env)"

definition panelTrace_plain :: "env \<Rightarrow> panel \<Rightarrow> page \<Rightarrow> event list" where
  "panelTrace_plain env = blockTrace (panelBlock_plain env)"

text \<open>
  A block is isolated when it leaves the shape of the document alone, writes to no
  element but its own metadata container, and when its result, its events and what it
  writes depend on the page only through the shape.
\<close>

definition isolated :: "(panel \<Rightarrow> page \<Rightarrow> (js_error + unit) option \<times> page) \<Rightarrow> bool" where
  "isolated blk \<longleftrightarrow>
     (\<forall>p pg. shape (snd (blk p pg)) = shape pg) \<and>
     (\<forall>p pg j. j \<noteq> meta_id p \<longrightarrow> elems (snd (blk p pg)) j = elems pg j) \<and>
     (\<forall>p pg pg0. shape pg = shape pg0 \<longrightarrow> fst (blk p pg) = fst (blk p pg0)) \<and>
     (\<forall>p pg pg0. shape pg = shape pg0 \<longrightarrow>
        events (snd (blk p pg)) = events pg @ blockTrace blk p pg0) \<and>
     (\<forall>p pg pg0. shape pg = shape pg0 \<longrightarrow> elems pg (meta_id p) = elems pg0 (meta_id p) \<longrightarrow>
        elems (snd (blk p pg)) (meta_id p) = elems (snd (blk p pg0)) (meta_id p))"

section \<open>A concrete page, document and host\<close>

text \<open>
  The document of the specification's end-to-end example, with attribution, time stamp
  and two notes added; a host that answers the broadband panel's request with a failure
  status and every other request with that document; and a page that has the canvas
  and the metadata container of all four panels.
\<close>

definition doc0 :: jsval where
  "doc0 = JObj [(''title'', JStr ''T''), (''unit'', JStr ''%''),
                (''years'', JArr [JNum 2019, JNum 2020]),
                (''hawaii'', JArr [JNum 1, JNull]),
                (''other_states_avg'', JArr [JNum 2, JNum (5 / 2)]),
                (''source'', JObj [(''human_url'', JStr ''https://example.org/src'')]),
                (''last_updated_utc'', JStr ''2024-01-01T00:00:00Z''),
                (''notes'', JArr [JStr ''first'', JStr ''second''])]"

definition env0 :: env where
  "env0 = \<lparr>fetch = (\<lambda>rq. if url rq = ''data/v1/broadband_adoption_households_share.json''
                          then Some (Inr \<lparr>ok = False, json = Some (Inl SyntaxError)\<rparr>)
                          else Some (Inr \<lparr>ok = True, json = Some (Inr doc0)\<rparr>)),
            Chart = (\<lambda>ctx cfg. None),
            HI = ''#0a7'', OTHER = ''#777'',
            num_toString = (\<lambda>r. ''0''),
            num_toLocaleString = (\<lambda>r d. ''0''),
            Date_parse = (\<lambda>s. if s = ''2024-01-01T00:00:00Z'' then Some 1704067200000 else None),
            date_toLocaleString = (\<lambda>t. ''1/1/2024, 12:00:00 AM'')\<rparr>"

text \<open>A host whose every response is the empty object \<^verbatim>\<open>{}\<close> with a success status, and
  one whose transport never answers the first panel's request.\<close>

definition env_empty :: env where
  "env_empty = env0\<lparr>fetch := (\<lambda>rq. Some (Inr \<lparr>ok = True, json = Some (Inr (JObj []))\<rparr>))\<rparr>"

definition env_stall :: env where
  "env_stall = env0\<lparr>fetch := (\<lambda>rq. if url rq = ''data/v1/public_health_ypll75_rate.json''
                                     then None
                                     else Some (Inr \<lparr>ok = True, json = Some (Inr doc0)\<rparr>))\<rparr>"

text \<open>The attribution that the formatter produces for that document.\<close>

definition link0 :: string where
  \<open>link0 = ''<a href="https://example.org/src" target="_blank" rel="noopener">Source</a>''\<close>

definition div0 :: element where
  "div0 = \<lparr>is_canvas = False, content = TextContent []\<rparr>"

definition canvas0 :: element where
  "canvas0 = \<lparr>is_canvas = True, content = TextContent []\<rparr>"

definition page0 :: page where
  "page0 = \<lparr>elems = map_of [(''chart-ypll'', canvas0), (''meta-ypll'', div0),
                              (''chart-uninsured'', canvas0), (''meta-uninsured'', div0),
                              (''chart-broadband'', canvas0), (''meta-broadband'', div0),
                              (''chart-renewables'', canvas0), (''meta-renewables'', div0)],
             events = []\<rparr>"

section \<open>How the blocks act on the page\<close>

lemma loadMetric_eq: "loadMetric env s pg = (loadResult env s, emit (Fetch (loadRequest s)) pg)"
  by (simp add: loadMetric_def loadResult_def loadRequest_def Let_def split: option.splits sum.splits)

lemma shape_emit [simp]: "shape (emit e pg) = shape pg"
  by (simp add: shape_def emit_def fun_eq_iff)

lemma elems_emit [simp]: "elems (emit e pg) = elems pg"
  by (simp add: emit_def)

lemma events_emit [simp]: "events (emit e pg) = events pg @ [e]"
  by (simp add: emit_def)

lemma getContext2d_shape: "getContext2d pg i = (case shape pg i of Some True \<Rightarrow> Inr i | _ \<Rightarrow> Inl TypeError)"
  by (simp add: getContext2d_def getElementById_def shape_def split: option.splits)

lemma chartArgs_shape: "shape pg = shape pg0 \<Longrightarrow> chartArgs pg p m = chartArgs pg0 p m"
  by (simp add: chartArgs_def getContext2d_shape)

lemma getContext2d_emit [simp]: "getContext2d (emit e pg) i = getContext2d pg i"
  by (simp add: getContext2d_shape)

lemma chartArgs_emit [simp]: "chartArgs (emit e pg) p m = chartArgs pg p m"
  by (simp add: chartArgs_def)

lemma set_innerHTML_None: "shape pg i = None \<Longrightarrow> set_innerHTML i h pg = (Inl TypeError, pg)"
  by (simp add: set_innerHTML_def getElementById_def shape_def)

lemma set_textContent_None: "shape pg i = None \<Longrightarrow> set_textContent i h pg = (Inl TypeError, pg)"
  by (simp add: set_textContent_def getElementById_def shape_def)

lemma set_innerHTML_Some: "shape pg i \<noteq> None \<Longrightarrow> set_innerHTML i h pg = (Inr (), emit (SetInnerHTML i h) (put i (InnerHTML h) pg))"
  by (auto simp add: set_innerHTML_def getElementById_def shape_def put_def fun_eq_iff)

lemma set_textContent_Some: "shape pg i \<noteq> None \<Longrightarrow> set_textContent i h pg = (Inr (), emit (SetTextContent i h) (put i (TextContent h) pg))"
  by (auto simp add: set_textContent_def getElementById_def shape_def put_def fun_eq_iff)

lemma shape_put [simp]: "shape (put i c pg) = shape pg"
  by (auto simp add: shape_def put_def fun_eq_iff option.map_comp comp_def)

lemma events_put [simp]: "events (put i c pg) = events pg"
  by (simp add: put_def)

lemma elems_put_other: "j \<noteq> i \<Longrightarrow> elems (put i c pg) j = elems pg j"
  by (simp add: put_def)

lemma elems_put_same: "elems (put i c pg) i = map_option (\<lambda>el. el\<lparr>content := c\<rparr>) (elems pg i)"
  by (simp add: put_def)

lemma set_innerHTML_nf:
  "set_innerHTML i h pg =
     (if shape pg i = None then (Inl TypeError, pg)
      else (Inr (), emit (SetInnerHTML i h) (put i (InnerHTML h) pg)))"
  by (simp add: set_innerHTML_None set_innerHTML_Some)

lemma set_textContent_nf:
  "set_textContent i h pg =
     (if shape pg i = None then (Inl TypeError, pg)
      else (Inr (), emit (SetTextContent i h) (put i (TextContent h) pg)))"
  by (simp add: set_textContent_None set_textContent_Some)

lemma catchBlock_nf:
  "catchBlock p e pg =
     (if shape pg (meta_id p) = None then (Inr (), emit (ConsoleError e) pg)
      else (Inr (), emit (ConsoleError e)
                      (emit (SetTextContent (meta_id p) (unavailable p))
                         (put (meta_id p) (TextContent (unavailable p)) pg))))"
  by (auto simp add: catchBlock_def set_textContent_nf getElementById_def shape_def split: option.splits)

lemma catchBlock_plain_nf:
  "catchBlock_plain p e pg =
     (if shape pg (meta_id p) = None then (Inl TypeError, pg)
      else (Inr (), emit (ConsoleError e)
                      (emit (SetTextContent (meta_id p) (unavailable p))
                         (put (meta_id p) (TextContent (unavailable p)) pg))))"
  by (auto simp add: catchBlock_plain_def set_textContent_nf)

lemmas block_defs = panelBlock_def tryBody_def loadMetric_eq makeLineChart_def new_Chart_def
  setMetaAndDownloads_def set_innerHTML_nf catchBlock_nf
  panelBlock_plain_def tryBody_plain_def makeLineChart_plain_def setMeta_def catchBlock_plain_nf

lemmas block_splits = option.splits sum.splits prod.splits

lemma panelBlock_shape: "shape (snd (panelBlock env p pg)) = shape pg"
  by (cases "shape pg (meta_id p)") (simp_all add: block_defs split: block_splits)

lemma panelBlock_other: "j \<noteq> meta_id p \<Longrightarrow> elems (snd (panelBlock env p pg)) j = elems pg j"
  by (cases "shape pg (meta_id p)") (simp_all add: block_defs elems_put_other split: block_splits)

lemma panelBlock_status: "shape pg = shape pg0 \<Longrightarrow> fst (panelBlock env p pg) = fst (panelBlock env p pg0)"
  by (cases "shape pg0 (meta_id p)") (simp_all add: block_defs chartArgs_shape[of pg pg0] split: block_splits)

lemma panelBlock_events0: "events (snd (panelBlock env p pg)) = events pg @ panelTrace env p pg"
  unfolding panelTrace_def blockTrace_def
  by (cases "shape pg (meta_id p)") (simp_all add: block_defs split: block_splits)

lemma panelBlock_trace: "shape pg = shape pg0 \<Longrightarrow> panelTrace env p pg = panelTrace env p pg0"
  unfolding panelTrace_def blockTrace_def
  by (cases "shape pg0 (meta_id p)") (simp_all add: block_defs chartArgs_shape[of pg pg0] split: block_splits)

lemma panelBlock_same: "shape pg = shape pg0 \<Longrightarrow> elems pg (meta_id p) = elems pg0 (meta_id p) \<Longrightarrow> 
   elems (snd (panelBlock env p pg)) (meta_id p) = elems (snd (panelBlock env p pg0)) (meta_id p)"
  by (cases "shape pg0 (meta_id p)") (simp_all add: block_defs chartArgs_shape[of pg pg0] elems_put_same split: block_splits)

lemma panelBlock_plain_shape: "shape (snd (panelBlock_plain env p pg)) = shape pg"
  by (cases "shape pg (meta_id p)") (simp_all add: block_defs split: block_splits)

lemma panelBlock_plain_other: "j \<noteq> meta_id p \<Longrightarrow> elems (snd (panelBlock_plain env p pg)) j = elems pg j"
  by (cases "shape pg (meta_id p)") (simp_all add: block_defs elems_put_other split: block_splits)

lemma panelBlock_plain_status: "shape pg = shape pg0 \<Longrightarrow> fst (panelBlock_plain env p pg) = fst (panelBlock_plain env p pg0)"
  by (cases "shape pg0 (meta_id p)") (simp_all add: block_defs chartArgs_shape[of pg pg0] split: block_splits)

lemma panelBlock_plain_events0: "events (snd (panelBlock_plain env p pg)) = events pg @ panelTrace_plain env p pg"
  unfolding panelTrace_plain_def blockTrace_def
  by (cases "shape pg (meta_id p)") (simp_all add: block_defs split: block_splits)

lemma panelBlock_plain_trace: "shape pg = shape pg0 \<Longrightarrow> panelTrace_plain env p pg = panelTrace_plain env p pg0"
  unfolding panelTrace_plain_def blockTrace_def
  by (cases "shape pg0 (meta_id p)") (simp_all add: block_defs chartArgs_shape[of pg pg0] split: block_splits)

lemma panelBlock_plain_same: "shape pg = shape pg0 \<Longrightarrow> elems pg (meta_id p) = elems pg0 (meta_id p) \<Longrightarrow> 
   elems (snd (panelBlock_plain env p pg)) (meta_id p) = elems (snd (panelBlock_plain env p pg0)) (meta_id p)"
  by (cases "shape pg0 (meta_id p)") (simp_all add: block_defs chartArgs_shape[of pg pg0] elems_put_same split: block_splits)

lemma isolated_panelBlock: "isolated (panelBlock env)"
  unfolding isolated_def
proof (intro conjI allI impI)
  fix p pg pg0 j
  show "shape (snd (panelBlock env p pg)) = shape pg"
    by (rule panelBlock_shape)
  show "elems (snd (panelBlock env p pg)) j = elems pg j" if "j \<noteq> meta_id p"
    using that by (rule panelBlock_other)
  show "fst (panelBlock env p pg) = fst (panelBlock env p pg0)" if "shape pg = shape pg0"
    using that by (rule panelBlock_status)
  show "events (snd (panelBlock env p pg)) = events pg @ blockTrace (panelBlock env) p pg0"
    if "shape pg = shape pg0"
    using panelBlock_events0 [of env p pg] panelBlock_trace [OF that, of env p]
    by (simp add: panelTrace_def)
  show "elems (snd (panelBlock env p pg)) (meta_id p) = elems (snd (panelBlock env p pg0)) (meta_id p)"
    if "shape pg = shape pg0" and "elems pg (meta_id p) = elems pg0 (meta_id p)"
    using that by (rule panelBlock_same)
qed

lemma isolated_panelBlock_plain: "isolated (panelBlock_plain env)"
  unfolding isolated_def
proof (intro conjI allI impI)
  fix p pg pg0 j
  show "shape (snd (panelBlock_plain env p pg)) = shape pg"
    by (rule panelBlock_plain_shape)
  show "elems (snd (panelBlock_plain env p pg)) j = elems pg j" if "j \<noteq> meta_id p"
    using that by (rule panelBlock_plain_other)
  show "fst (panelBlock_plain env p pg) = fst (panelBlock_plain env p pg0)"
    if "shape pg = shape pg0"
    using that by (rule panelBlock_plain_status)
  show "events (snd (panelBlock_plain env p pg)) =
        events pg @ blockTrace (panelBlock_plain env) p pg0"
    if "shape pg = shape pg0"
    using panelBlock_plain_events0 [of env p pg] panelBlock_plain_trace [OF that, of env p]
    by (simp add: panelTrace_plain_def)
  show "elems (snd (panelBlock_plain env p pg)) (meta_id p) =
        elems (snd (panelBlock_plain env p pg0)) (meta_id p)"
    if "shape pg = shape pg0" and "elems pg (meta_id p) = elems pg0 (meta_id p)"
    using that by (rule panelBlock_plain_same)
qed

lemma runBlocks_step:
  "runBlocks blk (p # ps) pg =
     (if fst (blk p pg) = Some (Inr ()) then runBlocks blk ps (snd (blk p pg)) else blk p pg)"
  by (cases "blk p pg") (auto split: option.splits sum.splits)

lemma runBlocks_shape:
  assumes "isolated blk"
  shows "shape (snd (runBlocks blk ps pg)) = shape pg"
proof (induction ps arbitrary: pg)
  case Nil
  show ?case by simp
next
  case (Cons p ps)
  from assms have sh: "shape (snd (blk p pg)) = shape pg"
    by (simp add: isolated_def)
  show ?case
    using Cons.IH [of "snd (blk p pg)"] sh
    by (simp add: runBlocks_step del: runBlocks.simps(2))
qed

lemma runBlocks_status:
  assumes "isolated blk" and "shape pg = shape pg0"
  shows "fst (runBlocks blk ps pg) = lastStatus (\<lambda>p. fst (blk p pg0)) ps"
  using assms(2)
proof (induction ps arbitrary: pg)
  case Nil
  show ?case by simp
next
  case (Cons p ps)
  from assms(1) Cons.prems have st: "fst (blk p pg) = fst (blk p pg0)"
    unfolding isolated_def by blast
  from assms(1) Cons.prems have sh: "shape (snd (blk p pg)) = shape pg0"
    by (simp add: isolated_def)
  show ?case
    using Cons.IH [OF sh] st by (simp add: runBlocks_step del: runBlocks.simps(2))
qed

lemma runBlocks_events:
  assumes "isolated blk" and "shape pg = shape pg0"
  shows "events (snd (runBlocks blk ps pg)) =
         events pg @ concat (map (\<lambda>p. blockTrace blk p pg0) (launched (completes blk pg0) ps))"
  using assms(2)
proof (induction ps arbitrary: pg)
  case Nil
  show ?case by simp
next
  case (Cons p ps)
  from assms(1) Cons.prems have st: "fst (blk p pg) = fst (blk p pg0)"
    unfolding isolated_def by blast
  from assms(1) Cons.prems have sh: "shape (snd (blk p pg)) = shape pg0"
    by (simp add: isolated_def)
  from assms(1) Cons.prems
  have ev: "events (snd (blk p pg)) = events pg @ blockTrace blk p pg0"
    unfolding isolated_def by blast
  show ?case
  proof (cases "completes blk pg0 p")
    case True
    with st have "runBlocks blk (p # ps) pg = runBlocks blk ps (snd (blk p pg))"
      by (simp add: runBlocks_step completes_def del: runBlocks.simps(2))
    with Cons.IH [OF sh] ev True show ?thesis by simp
  next
    case False
    with st have "runBlocks blk (p # ps) pg = blk p pg"
      by (simp add: runBlocks_step completes_def del: runBlocks.simps(2))
    with ev False show ?thesis by simp
  qed
qed

lemma runBlocks_untouched:
  assumes "isolated blk" and "j \<notin> meta_id ` set ps"
  shows "elems (snd (runBlocks blk ps pg)) j = elems pg j"
  using assms(2)
proof (induction ps arbitrary: pg)
  case Nil
  show ?case by simp
next
  case (Cons p ps)
  from Cons.prems have ne: "j \<noteq> meta_id p" and rest: "j \<notin> meta_id ` set ps"
    by auto
  from assms(1) ne have keep: "elems (snd (blk p pg)) j = elems pg j"
    unfolding isolated_def by blast
  show ?case
    using Cons.IH [OF rest, of "snd (blk p pg)"] keep
    by (simp add: runBlocks_step del: runBlocks.simps(2))
qed

lemma runBlocks_written:
  assumes "isolated blk" and "shape pg = shape pg0"
    and "distinct (map meta_id ps)"
    and "\<forall>q \<in> set ps. elems pg (meta_id q) = elems pg0 (meta_id q)"
    and "p \<in> set (launched (completes blk pg0) ps)"
  shows "elems (snd (runBlocks blk ps pg)) (meta_id p) = elems (snd (blk p pg0)) (meta_id p)"
  using assms(2-5)
proof (induction ps arbitrary: pg)
  case Nil
  then show ?case by simp
next
  case (Cons q ps)
  from assms(1) Cons.prems(1) have st: "fst (blk q pg) = fst (blk q pg0)"
    unfolding isolated_def by blast
  from assms(1) Cons.prems(1) have sh: "shape (snd (blk q pg)) = shape pg0"
    by (simp add: isolated_def)
  from Cons.prems(3) have agree_q: "elems pg (meta_id q) = elems pg0 (meta_id q)"
    by simp
  from assms(1) Cons.prems(1) agree_q
  have same: "elems (snd (blk q pg)) (meta_id q) = elems (snd (blk q pg0)) (meta_id q)"
    unfolding isolated_def by blast
  from Cons.prems(2) have fresh: "meta_id q \<notin> meta_id ` set ps" and dist: "distinct (map meta_id ps)"
    by auto
  have agree_rest: "\<forall>r \<in> set ps. elems (snd (blk q pg)) (meta_id r) = elems pg0 (meta_id r)"
  proof
    fix r assume r: "r \<in> set ps"
    from r have "meta_id r \<in> meta_id ` set ps" by (rule imageI)
    with fresh have "meta_id r \<noteq> meta_id q" by metis
    with assms(1) have "elems (snd (blk q pg)) (meta_id r) = elems pg (meta_id r)"
      unfolding isolated_def by blast
    with Cons.prems(3) r show "elems (snd (blk q pg)) (meta_id r) = elems pg0 (meta_id r)"
      by simp
  qed
  show ?case
  proof (cases "p = q")
    case True
    show ?thesis
    proof (cases "fst (blk q pg0) = Some (Inr ())")
      case True
      with st \<open>p = q\<close> same runBlocks_untouched [OF assms(1) fresh, of "snd (blk q pg)"]
      show ?thesis by (simp add: runBlocks_step del: runBlocks.simps(2))
    next
      case False
      with st \<open>p = q\<close> same show ?thesis by (simp add: runBlocks_step del: runBlocks.simps(2))
    qed
  next
    case False
    with Cons.prems(4) have compl: "completes blk pg0 q" and pin: "p \<in> set (launched (completes blk pg0) ps)"
      by (auto split: if_splits)
    from compl st have go: "fst (blk q pg) = Some (Inr ())"
      by (simp add: completes_def)
    show ?thesis
      using Cons.IH [OF sh dist agree_rest pin] go
      by (simp add: runBlocks_step del: runBlocks.simps(2))
  qed
qed

lemma panelBlock_completes:
  "fst (panelBlock env p pg) = (if settles env (slug p) then Some (Inr ()) else None)"
  by (cases "shape pg (meta_id p)") (simp_all add: block_defs settles_def split: block_splits)

lemma panelBlock_plain_completes:
  "fst (panelBlock_plain env p pg) =
     (if \<not> settles env (slug p) then None
      else if elems pg (meta_id p) = None then Some (Inl TypeError)
      else Some (Inr ()))"
  by (cases "shape pg (meta_id p)")
     (auto simp add: block_defs settles_def shape_def split: block_splits)

lemma panelBlock_fallback:
  assumes "fst (tryBody env p pg) = Some (Inl e)" and "elems pg (meta_id p) = Some el"
  shows "elems (snd (panelBlock env p pg)) (meta_id p) =
           Some (el\<lparr>content := TextContent (unavailable p)\<rparr>)"
proof -
  from assms(2) have sh: "shape pg (meta_id p) = Some (is_canvas el)"
    by (simp add: shape_def)
  have other: "elems (snd (tryBody env p pg)) (meta_id p) = elems pg (meta_id p)"
    using assms(1) sh
    by (simp add: block_defs split: block_splits)
  have sh2: "shape (snd (tryBody env p pg)) (meta_id p) = Some (is_canvas el)"
    using other assms(2) by (simp add: shape_def)
  show ?thesis
    using assms(1) other assms(2) sh2
    by (cases "tryBody env p pg") (simp add: panelBlock_def catchBlock_nf elems_put_same)
qed

lemma panelBlock_plain_fallback:
  assumes "fst (tryBody_plain env p pg) = Some (Inl e)" and "elems pg (meta_id p) = Some el"
  shows "elems (snd (panelBlock_plain env p pg)) (meta_id p) =
           Some (el\<lparr>content := TextContent (unavailable p)\<rparr>)"
proof -
  from assms(2) have sh: "shape pg (meta_id p) = Some (is_canvas el)"
    by (simp add: shape_def)
  have other: "elems (snd (tryBody_plain env p pg)) (meta_id p) = elems pg (meta_id p)"
    using assms(1) sh
    by (simp add: block_defs split: block_splits)
  have sh2: "shape (snd (tryBody_plain env p pg)) (meta_id p) = Some (is_canvas el)"
    using other assms(2) by (simp add: shape_def)
  show ?thesis
    using assms(1) other assms(2) sh2
    by (cases "tryBody_plain env p pg")
       (simp add: panelBlock_plain_def catchBlock_plain_nf elems_put_same)
qed

lemma panelTrace_head:
  "\<exists>rest. panelTrace env p pg = Fetch (loadRequest (slug p)) # rest \<and> \<not> list_ex isFetch rest"
  unfolding panelTrace_def blockTrace_def
  by (cases "shape pg (meta_id p)") (simp_all add: block_defs split: block_splits)

lemma panelTrace_plain_head:
  "\<exists>rest. panelTrace_plain env p pg = Fetch (loadRequest (slug p)) # rest \<and> \<not> list_ex isFetch rest"
  unfolding panelTrace_plain_def blockTrace_def
  by (cases "shape pg (meta_id p)") (simp_all add: block_defs split: block_splits)

lemma panelTrace_stuck:
  "\<not> settles env (slug p) \<Longrightarrow> panelTrace env p pg = [Fetch (loadRequest (slug p))]"
  unfolding panelTrace_def blockTrace_def
  by (simp add: block_defs settles_def split: block_splits)

lemma panelTrace_plain_stuck:
  "\<not> settles env (slug p) \<Longrightarrow> panelTrace_plain env p pg = [Fetch (loadRequest (slug p))]"
  unfolding panelTrace_plain_def blockTrace_def
  by (simp add: block_defs settles_def split: block_splits)

section \<open>The two orchestrators as sequences of isolated blocks\<close>

lemma main_panels_distinct: "distinct (map meta_id [ypll, un, bb, rn])"
  by (simp add: ypll_def un_def bb_def rn_def)

lemma plain_panels_distinct: "distinct (map meta_id [bb, rn])"
  by (simp add: bb_def rn_def)

lemma completes_panelBlock: "completes (panelBlock env) pg = (\<lambda>p. settles env (slug p))"
  by (simp add: fun_eq_iff completes_def panelBlock_completes)

lemma completes_panelBlock_plain:
  "completes (panelBlock_plain env) pg = (\<lambda>p. settles env (slug p) \<and> elems pg (meta_id p) \<noteq> None)"
  by (simp add: fun_eq_iff completes_def panelBlock_plain_completes)

lemma main_events:
  "events (snd (main env pg)) =
     events pg @ concat (map (\<lambda>p. panelTrace env p pg)
                           (launched (\<lambda>p. settles env (slug p)) [ypll, un, bb, rn]))"
  unfolding main_def panelTrace_def
  using runBlocks_events [OF isolated_panelBlock refl, of env "[ypll, un, bb, rn]" pg]
  by (simp only: completes_panelBlock)

lemma main_plain_events:
  "events (snd (main_plain env pg)) =
     events pg @ concat (map (\<lambda>p. panelTrace_plain env p pg)
                           (launched (\<lambda>p. settles env (slug p) \<and> elems pg (meta_id p) \<noteq> None) [bb, rn]))"
  unfolding main_plain_def panelTrace_plain_def
  using runBlocks_events [OF isolated_panelBlock_plain refl, of env "[bb, rn]" pg]
  by (simp only: completes_panelBlock_plain)

lemma main_status:
  "fst (main env pg) = lastStatus (\<lambda>p. if settles env (slug p) then Some (Inr ()) else None) [ypll, un, bb, rn]"
  unfolding main_def
  using runBlocks_status [OF isolated_panelBlock refl, of env "[ypll, un, bb, rn]" pg]
  by (simp only: panelBlock_completes)

lemma main_plain_status:
  "fst (main_plain env pg) = lastStatus (\<lambda>p. fst (panelBlock_plain env p pg)) [bb, rn]"
  unfolding main_plain_def
  using runBlocks_status [OF isolated_panelBlock_plain refl, of env "[bb, rn]" pg]
  by simp

lemma main_written:
  assumes "p \<in> set (launched (\<lambda>p. settles env (slug p)) [ypll, un, bb, rn])"
  shows "elems (snd (main env pg)) (meta_id p) = elems (snd (panelBlock env p pg)) (meta_id p)"
  unfolding main_def
  using runBlocks_written [OF isolated_panelBlock [of env] refl main_panels_distinct, where p = p and pg = pg] assms
  by (simp add: completes_panelBlock)

lemma main_plain_written:
  assumes "p \<in> set (launched (\<lambda>p. settles env (slug p) \<and> elems pg (meta_id p) \<noteq> None) [bb, rn])"
  shows "elems (snd (main_plain env pg)) (meta_id p) = elems (snd (panelBlock_plain env p pg)) (meta_id p)"
  unfolding main_plain_def
  using runBlocks_written [OF isolated_panelBlock_plain [of env] refl plain_panels_distinct, where p = p and pg = pg] assms
  by (simp add: completes_panelBlock_plain)

text \<open>Unfolding everything, to run the script on a concrete page.\<close>

lemmas run_defs = panelBlock_def tryBody_def catchBlock_def loadMetric_def
  emit_def chartArgs_def getContext2d_def getElementById_def
  makeLineChart_def new_Chart_def setMetaAndDownloads_def metaFragment_def
  set_innerHTML_def set_textContent_def notesItems_def listItem_def srcLine_def js_or_def
  panelBlock_plain_def tryBody_plain_def catchBlock_plain_def makeLineChart_plain_def
  setMeta_def metaFragment_plain_def Let_def

lemmas input_defs = env0_def page0_def doc0_def canvas0_def div0_def
  ypll_def un_def bb_def rn_def

section \<open>What the metadata formatter computes\<close>


lemma get_prop_field:
  "v \<noteq> JUndefined \<Longrightarrow> v \<noteq> JNull \<Longrightarrow> get_prop v k = Inr (field v k)"
  by (cases v) (simp_all add: field_def)


lemma truthy_defined: "truthy v \<Longrightarrow> v \<noteq> JUndefined \<and> v \<noteq> JNull"
  by (cases v) simp_all

lemma js_or_obj_defined: "js_or v (JObj []) \<noteq> JUndefined \<and> js_or v (JObj []) \<noteq> JNull"
  using truthy_defined [of v] by (simp add: js_or_def)

lemma collect_Inl: "collect rs = Inl e \<Longrightarrow> Inl e \<in> set rs"
  by (induction rs rule: collect.induct) (auto split: sum.splits)


lemma ToString_TypeError: "ToString num v = Inl e \<Longrightarrow> e = TypeError"
proof (induction num v arbitrary: e rule: ToString.induct)
  case (6 num xs)
  from "6.prems" obtain e' where
    c: "collect (map (\<lambda>x. if x = JUndefined \<or> x = JNull then Inr [] else ToString num x) xs) = Inl e'"
    and e: "e' = e"
    by (auto split: sum.splits)
  from collect_Inl [OF c] obtain x where x: "x \<in> set xs"
    and r: "(if x = JUndefined \<or> x = JNull then Inr [] else ToString num x) = Inl e'"
    by auto
  from r have nn: "\<not> (x = JUndefined \<or> x = JNull)" and t: "ToString num x = Inl e'"
    by (auto split: if_splits)
  from "6.IH" [OF x nn t] e show ?case by simp
qed (auto split: option.splits)

lemma printable_cases:
  "ToString (num_toString env) v = (if printable env v
     then Inr (case ToString (num_toString env) v of Inr t \<Rightarrow> t | Inl e \<Rightarrow> [])
     else Inl TypeError)"
  using ToString_TypeError [of "num_toString env" v]
  by (cases "ToString (num_toString env) v") (simp_all add: printable_def)

lemma printable_prim [simp]:
  "printable env JUndefined" "printable env JNull" "printable env (JBool b)"
  "printable env (JNum r)" "printable env (JStr t)"
  by (simp_all add: printable_def)

lemma printable_obj: "printable env (JObj kvs) \<longleftrightarrow> map_of kvs ''toString'' = None"
  by (simp add: printable_def split: option.splits)

lemma listItem_cases:
  "listItem env n = (if printable env n
     then Inr (''<li>'' @ (case ToString (num_toString env) n of Inr t \<Rightarrow> t | Inl e \<Rightarrow> []) @ ''</li>'')
     else Inl TypeError)"
  by (subst listItem_def, subst printable_cases) simp

lemma collect_listItem_ok:
  "list_all (printable env) xs \<Longrightarrow> \<exists>items. collect (map (listItem env) xs) = Inr items"
  by (induction xs) (auto simp add: listItem_cases)

lemma collect_listItem_bad:
  "\<not> list_all (printable env) xs \<Longrightarrow> collect (map (listItem env) xs) = Inl TypeError"
  by (induction xs) (auto simp add: listItem_cases split: sum.splits)

lemma notesItems_ok: "notesRenderable env v \<Longrightarrow> \<exists>items. notesItems env v = Inr items"
proof (cases v)
  case (JArr xs)
  assume "notesRenderable env v"
  with JArr have "list_all (printable env) xs"
    by (simp add: notesRenderable_def)
  from collect_listItem_ok [OF this] obtain items where
    "collect (map (listItem env) xs) = Inr items" ..
  with JArr show ?thesis
    by (simp add: notesItems_def js_or_def)
qed (simp_all add: notesItems_def notesRenderable_def js_or_def)

lemma notesItems_bad: "\<not> notesRenderable env v \<Longrightarrow> notesItems env v = Inl TypeError"
  using collect_listItem_bad [of env]
  by (cases v) (auto simp add: notesItems_def notesRenderable_def js_or_def split: sum.splits)

lemma notesItems_absent: "\<not> truthy v \<Longrightarrow> notesItems env v = Inr []"
  by (simp add: notesItems_def js_or_def)


lemma srcLine_ok:
  "\<not> truthy h \<or> printable env h \<Longrightarrow> \<exists>a. srcLine env h = Inr a"
  by (subst srcLine_def, subst printable_cases) auto

lemma srcLine_bad:
  "truthy h \<Longrightarrow> \<not> printable env h \<Longrightarrow> srcLine env h = Inl TypeError"
  by (subst srcLine_def, subst printable_cases) auto

lemma new_Date_ok: "printable env v \<Longrightarrow> \<exists>d. new_Date env v = Inr d"
  by (cases v) (auto simp add: printable_def split: sum.splits)

lemma new_Date_bad: "\<not> printable env v \<Longrightarrow> new_Date env v = Inl TypeError"
  using ToString_TypeError [of "num_toString env" v]
  by (cases v) (auto simp add: printable_def split: sum.splits)

lemma metaFragment_defined:
  assumes "payload \<noteq> JUndefined" and "payload \<noteq> JNull"
  shows "metaFragment env s payload =
           (case notesItems env (field payload ''notes'') of
              Inl e \<Rightarrow> Inl e
            | Inr notes \<Rightarrow>
                (case srcLine env (payloadUrl payload) of
                   Inl e \<Rightarrow> Inl e
                 | Inr a \<Rightarrow>
                     (case new_Date env (field payload ''last_updated_utc'') of
                        Inl e \<Rightarrow> Inl e
                      | Inr d \<Rightarrow>
                          Inr (metaHtml a (Date_toLocaleString env d) (jsonUrl s) (csvUrl s) notes))))"
  using js_or_obj_defined [of "field payload ''source''"]
  by (simp add: metaFragment_def get_prop_field assms Let_def payloadUrl_def split: sum.splits)

lemma metaFragment_plain_defined:
  assumes "payload \<noteq> JUndefined" and "payload \<noteq> JNull"
  shows "metaFragment_plain env payload =
           (case notesItems env (field payload ''notes'') of
              Inl e \<Rightarrow> Inl e
            | Inr notes \<Rightarrow>
                (case srcLine env (payloadUrl payload) of
                   Inl e \<Rightarrow> Inl e
                 | Inr a \<Rightarrow>
                     (case new_Date env (field payload ''last_updated_utc'') of
                        Inl e \<Rightarrow> Inl e
                      | Inr d \<Rightarrow> Inr (metaHtml_plain a (Date_toLocaleString env d) notes))))"
  using js_or_obj_defined [of "field payload ''source''"]
  by (simp add: metaFragment_plain_def get_prop_field assms Let_def payloadUrl_def split: sum.splits)

lemma metaFragment_cases:
  assumes "payload \<noteq> JUndefined" and "payload \<noteq> JNull"
  shows "metaFragment env s payload =
           (if formattable env payload
            then Inr (metaHtml (payloadSrcLine env payload) (payloadUpdated env payload)
                        (jsonUrl s) (csvUrl s) (payloadNotes env payload))
            else Inl TypeError)"
proof (cases "notesRenderable env (field payload ''notes'')")
  case False
  then show ?thesis
    by (simp add: metaFragment_defined assms notesItems_bad formattable_def)
next
  case n: True
  from notesItems_ok [OF n] obtain items where
    ni: "notesItems env (field payload ''notes'') = Inr items" ..
  show ?thesis
  proof (cases "\<not> truthy (payloadUrl payload) \<or> printable env (payloadUrl payload)")
    case False
    then show ?thesis
      by (simp add: metaFragment_defined assms ni srcLine_bad formattable_def)
  next
    case u: True
    from srcLine_ok [OF u] obtain a where sl: "srcLine env (payloadUrl payload) = Inr a" ..
    show ?thesis
    proof (cases "printable env (field payload ''last_updated_utc'')")
      case False
      then show ?thesis
        by (simp add: metaFragment_defined assms ni sl new_Date_bad formattable_def)
    next
      case d: True
      from new_Date_ok [OF d] obtain dt where
        nd: "new_Date env (field payload ''last_updated_utc'') = Inr dt" ..
      from n u d have f: "formattable env payload"
        by (auto simp add: formattable_def)
      show ?thesis
        by (simp add: metaFragment_defined assms ni sl nd f payloadSrcLine_def
            payloadUpdated_def payloadNotes_def)
    qed
  qed
qed

lemma metaFragment_plain_cases:
  assumes "payload \<noteq> JUndefined" and "payload \<noteq> JNull"
  shows "metaFragment_plain env payload =
           (if formattable env payload
            then Inr (metaHtml_plain (payloadSrcLine env payload) (payloadUpdated env payload)
                        (payloadNotes env payload))
            else Inl TypeError)"
proof (cases "notesRenderable env (field payload ''notes'')")
  case False
  then show ?thesis
    by (simp add: metaFragment_plain_defined assms notesItems_bad formattable_def)
next
  case n: True
  from notesItems_ok [OF n] obtain items where
    ni: "notesItems env (field payload ''notes'') = Inr items" ..
  show ?thesis
  proof (cases "\<not> truthy (payloadUrl payload) \<or> printable env (payloadUrl payload)")
    case False
    then show ?thesis
      by (simp add: metaFragment_plain_defined assms ni srcLine_bad formattable_def)
  next
    case u: True
    from srcLine_ok [OF u] obtain a where sl: "srcLine env (payloadUrl payload) = Inr a" ..
    show ?thesis
    proof (cases "printable env (field payload ''last_updated_utc'')")
      case False
      then show ?thesis
        by (simp add: metaFragment_plain_defined assms ni sl new_Date_bad formattable_def)
    next
      case d: True
      from new_Date_ok [OF d] obtain dt where
        nd: "new_Date env (field payload ''last_updated_utc'') = Inr dt" ..
      from n u d have f: "formattable env payload"
        by (auto simp add: formattable_def)
      show ?thesis
        by (simp add: metaFragment_plain_defined assms ni sl nd f payloadSrcLine_def
            payloadUpdated_def payloadNotes_def)
    qed
  qed
qed

lemma metaFragment_Inr_defined:
  "metaFragment env s payload = Inr html \<Longrightarrow> payload \<noteq> JUndefined \<and> payload \<noteq> JNull"
  by (cases payload) (simp_all add: metaFragment_def)

lemma setMetaAndDownloads_fetches:
  "filter isFetch (events (snd (setMetaAndDownloads env s i payload pg))) = filter isFetch (events pg)"
  by (cases "shape pg i")
     (simp_all add: setMetaAndDownloads_def set_innerHTML_nf split: sum.splits)

lemma setMetaAndDownloads_written:
  assumes "elems pg i = Some el" and "metaFragment env s payload = Inr html"
  shows "fst (setMetaAndDownloads env s i payload pg) = Inr () \<and>
         elems (snd (setMetaAndDownloads env s i payload pg)) i = Some (el\<lparr>content := InnerHTML html\<rparr>)"
  using assms by (simp add: setMetaAndDownloads_def set_innerHTML_def getElementById_def emit_def)

lemma setMeta_written:
  assumes "elems pg i = Some el" and "metaFragment_plain env payload = Inr html"
  shows "fst (setMeta env i payload pg) = Inr () \<and>
         elems (snd (setMeta env i payload pg)) i = Some (el\<lparr>content := InnerHTML html\<rparr>)"
  using assms by (simp add: setMeta_def set_innerHTML_def getElementById_def emit_def)


lemma payloadSrcLine_absent:
  "field payload ''source'' = JUndefined \<Longrightarrow> payloadSrcLine env payload = ''Source: federal API''"
  by (simp add: payloadSrcLine_def payloadUrl_def js_or_def field_def srcLine_def)

lemma payloadNotes_absent:
  "field payload ''notes'' = JUndefined \<Longrightarrow> payloadNotes env payload = []"
  by (simp add: payloadNotes_def notesItems_absent)

lemma payloadUpdated_invalid:
  "field payload ''last_updated_utc'' = JUndefined \<or>
   (\<exists>t. field payload ''last_updated_utc'' = JStr t \<and> Date_parse env t = None)
   \<Longrightarrow> payloadUpdated env payload = ''Invalid Date''"
  by (auto simp add: payloadUpdated_def Date_toLocaleString_def)

lemmas format_defs = formattable_def notesRenderable_def printable_def payloadUrl_def
  payloadSrcLine_def payloadUpdated_def payloadNotes_def field_def js_or_def srcLine_def
  Date_toLocaleString_def notesItems_def listItem_def

section \<open>Reading a fragment back\<close>















section \<open>The metric loader: requests and failures\<close>

text \<open>
  Claim C8. Every call of \<open>loadMetric\<close> performs exactly one read: whatever the transport
  answers, the call adds one request to the page's events and nothing else, for the
  relative path \<^verbatim>\<open>data/v1/<slug>.json\<close> built from the slug as it is, with the cache mode
  \<^verbatim>\<open>no-store\<close>. There is no second read after a failure: a rejected read and a response
  with a failure status both end the call at once with an error.
\<close>

theorem loadMetric_single_uncached_read:
  "events (snd (loadMetric env s pg)) =
     events pg @ [Fetch \<lparr>url = ''data/v1/'' @ s @ ''.json'', cache = ''no-store''\<rparr>] \<and>
   elems (snd (loadMetric env s pg)) = elems pg \<and>
   (\<forall>e. fetch env \<lparr>url = ''data/v1/'' @ s @ ''.json'', cache = ''no-store''\<rparr> = Some (Inl e)
        \<longrightarrow> fst (loadMetric env s pg) = Some (Inl e)) \<and>
   (\<forall>res. fetch env \<lparr>url = ''data/v1/'' @ s @ ''.json'', cache = ''no-store''\<rparr> = Some (Inr res)
          \<and> \<not> ok res
        \<longrightarrow> (\<exists>e. fst (loadMetric env s pg) = Some (Inl e)))"
  by (simp add: loadMetric_def Let_def emit_def split: option.splits sum.splits)

theorem loadMetric_single_uncached_read_witness:
  "fetch env0 \<lparr>url = ''data/v1/'' @ ''broadband_adoption_households_share'' @ ''.json'', cache = ''no-store''\<rparr>
     = Some (Inr \<lparr>ok = False, json = Some (Inl SyntaxError)\<rparr>) \<and>
   \<not> ok \<lparr>ok = False, json = Some (Inl SyntaxError)\<rparr> \<and>
   (\<exists>e. fst (loadMetric env0 ''broadband_adoption_households_share'' page0) = Some (Inl e)) \<and>
   events (snd (loadMetric env0 ''broadband_adoption_households_share'' page0)) =
     [Fetch \<lparr>url = ''data/v1/broadband_adoption_households_share.json'', cache = ''no-store''\<rparr>]"
proof -
  have rq: "fetch env0 \<lparr>url = ''data/v1/'' @ ''broadband_adoption_households_share'' @ ''.json'',
                         cache = ''no-store''\<rparr>
              = Some (Inr \<lparr>ok = False, json = Some (Inl SyntaxError)\<rparr>)"
    by (simp add: env0_def)
  have ev: "events page0 = []"
    by (simp add: page0_def)
  from loadMetric_single_uncached_read [of env0 "''broadband_adoption_households_share''" page0] rq ev
  show ?thesis by simp
qed

text \<open>
  Claim C2, as the code has it. \<open>loadMetric\<close> fails with a plain \<^verbatim>\<open>Error\<close> whose message is
  \<^verbatim>\<open>Failed to load <slug>\<close> when the response has a failure status; with a success status
  its outcome is exactly the outcome of \<^verbatim>\<open>res.json()\<close>: the parser's error when the body is
  not well-formed JSON, and otherwise the parsed value as it is, whatever fields it has.
  A rejected or never answered read is passed on unchanged.
\<close>

theorem loadMetric_outcomes:
  "(\<forall>res. fetch env (loadRequest s) = Some (Inr res) \<and> \<not> ok res
      \<longrightarrow> fst (loadMetric env s pg) = Some (Inl (Error (''Failed to load '' @ s)))) \<and>
   (\<forall>res. fetch env (loadRequest s) = Some (Inr res) \<and> ok res
      \<longrightarrow> fst (loadMetric env s pg) = json res) \<and>
   (\<forall>e. fetch env (loadRequest s) = Some (Inl e)
      \<longrightarrow> fst (loadMetric env s pg) = Some (Inl e)) \<and>
   (fetch env (loadRequest s) = None \<longrightarrow> fst (loadMetric env s pg) = None)"
  by (simp add: loadMetric_def loadRequest_def Let_def)

theorem loadMetric_outcomes_witness:
  "fetch env0 (loadRequest ''broadband_adoption_households_share'')
     = Some (Inr \<lparr>ok = False, json = Some (Inl SyntaxError)\<rparr>) \<and>
   \<not> ok \<lparr>ok = False, json = Some (Inl SyntaxError)\<rparr> \<and>
   fst (loadMetric env0 ''broadband_adoption_households_share'' page0)
     = Some (Inl (Error ''Failed to load broadband_adoption_households_share'')) \<and>
   fetch env0 (loadRequest ''m1'') = Some (Inr \<lparr>ok = True, json = Some (Inr doc0)\<rparr>) \<and>
   ok \<lparr>ok = True, json = Some (Inr doc0)\<rparr> \<and>
   fst (loadMetric env0 ''m1'' page0) = Some (Inr doc0)"
proof -
  have a: "fetch env0 (loadRequest ''broadband_adoption_households_share'')
             = Some (Inr \<lparr>ok = False, json = Some (Inl SyntaxError)\<rparr>)"
    by (simp add: env0_def loadRequest_def)
  have b: "fetch env0 (loadRequest ''m1'') = Some (Inr \<lparr>ok = True, json = Some (Inr doc0)\<rparr>)"
    by (simp add: env0_def loadRequest_def)
  from loadMetric_outcomes [of env0 "''broadband_adoption_households_share''" page0]
       loadMetric_outcomes [of env0 "''m1''" page0] a b
  show ?thesis by simp
qed

text \<open>The claim as the specification states it fails: a response with a success status
  whose body is the empty object, which has none of the required fields, is returned
  by \<open>loadMetric\<close> as a result, not as a failure.\<close>

theorem loadMetric_missing_fields_counterexample:
  "fst (loadMetric env_empty ''m1'' page0) = Some (Inr (JObj []))"
  by (simp add: loadMetric_def env_empty_def Let_def)

section \<open>Failure isolation between panels\<close>

text \<open>
  Claim C1. On a page that has the metadata container of each panel, and with loads
  that settle (fulfilled or rejected), a failure in one panel stays in that panel:
  \<^item> no exception leaves a panel's block, and the whole run ends normally;
  \<^item> a panel whose \<^verbatim>\<open>try\<close> body throws, whether in the load, in the chart construction
    or in the metadata write, ends with its own container holding its fallback text;
  \<^item> every panel is run, and what it does is what it would do alone on the initial
    page: the events of the run are the events of the four panels (two in the plain
    variant) one after the other, and each container ends as that panel alone leaves it.

  The themed variant (\<open>main\<close>) tests that the container exists before writing the
  fallback, so its part holds on every page; the plain variant (\<open>main_plain\<close>) writes
  without the test, so its part is stated for pages that have the two containers.
\<close>

theorem panel_failure_isolated:
  assumes "settles env (slug ypll)" and "settles env (slug un)"
    and "settles env (slug bb)" and "settles env (slug rn)"
  shows
    "fst (main env pg) = Some (Inr ()) \<and>
     events (snd (main env pg)) =
       events pg @ panelTrace env ypll pg @ panelTrace env un pg @
       panelTrace env bb pg @ panelTrace env rn pg \<and>
     (\<forall>p \<in> set [ypll, un, bb, rn].
        (\<forall>e. fst (panelBlock env p pg) \<noteq> Some (Inl e)) \<and>
        elems (snd (main env pg)) (meta_id p) = elems (snd (panelBlock env p pg)) (meta_id p) \<and>
        (\<forall>e el. fst (tryBody env p pg) = Some (Inl e) \<and> elems pg (meta_id p) = Some el \<longrightarrow>
           elems (snd (main env pg)) (meta_id p) =
             Some (el\<lparr>content := TextContent (unavailable p)\<rparr>))) \<and>
     (elems pg (meta_id bb) \<noteq> None \<and> elems pg (meta_id rn) \<noteq> None \<longrightarrow>
        fst (main_plain env pg) = Some (Inr ()) \<and>
        events (snd (main_plain env pg)) =
          events pg @ panelTrace_plain env bb pg @ panelTrace_plain env rn pg \<and>
        (\<forall>p \<in> set [bb, rn].
           (\<forall>e. fst (panelBlock_plain env p pg) \<noteq> Some (Inl e)) \<and>
           elems (snd (main_plain env pg)) (meta_id p) =
             elems (snd (panelBlock_plain env p pg)) (meta_id p) \<and>
           (\<forall>e el. fst (tryBody_plain env p pg) = Some (Inl e) \<and> elems pg (meta_id p) = Some el \<longrightarrow>
              elems (snd (main_plain env pg)) (meta_id p) =
                Some (el\<lparr>content := TextContent (unavailable p)\<rparr>))))"
proof -
  let ?c = "\<lambda>p. settles env (slug p)"
  from assms have all: "launched ?c [ypll, un, bb, rn] = [ypll, un, bb, rn]"
    by simp
  have st: "fst (main env pg) = Some (Inr ())"
    using assms by (simp add: main_status)
  have ev: "events (snd (main env pg)) =
       events pg @ panelTrace env ypll pg @ panelTrace env un pg @
       panelTrace env bb pg @ panelTrace env rn pg"
    unfolding main_events all by simp
  have each: "(\<forall>e. fst (panelBlock env p pg) \<noteq> Some (Inl e)) \<and>
        elems (snd (main env pg)) (meta_id p) = elems (snd (panelBlock env p pg)) (meta_id p) \<and>
        (\<forall>e el. fst (tryBody env p pg) = Some (Inl e) \<and> elems pg (meta_id p) = Some el \<longrightarrow>
           elems (snd (main env pg)) (meta_id p) =
             Some (el\<lparr>content := TextContent (unavailable p)\<rparr>))"
    if "p \<in> set [ypll, un, bb, rn]" for p
  proof -
    from that all have "p \<in> set (launched ?c [ypll, un, bb, rn])"
      by simp
    then have w: "elems (snd (main env pg)) (meta_id p) =
                  elems (snd (panelBlock env p pg)) (meta_id p)"
      by (rule main_written)
    show ?thesis
      using w panelBlock_fallback [of env p pg]
      by (simp add: panelBlock_completes)
  qed
  have plain: "fst (main_plain env pg) = Some (Inr ()) \<and>
        events (snd (main_plain env pg)) =
          events pg @ panelTrace_plain env bb pg @ panelTrace_plain env rn pg \<and>
        (\<forall>p \<in> set [bb, rn].
           (\<forall>e. fst (panelBlock_plain env p pg) \<noteq> Some (Inl e)) \<and>
           elems (snd (main_plain env pg)) (meta_id p) =
             elems (snd (panelBlock_plain env p pg)) (meta_id p) \<and>
           (\<forall>e el. fst (tryBody_plain env p pg) = Some (Inl e) \<and> elems pg (meta_id p) = Some el \<longrightarrow>
              elems (snd (main_plain env pg)) (meta_id p) =
                Some (el\<lparr>content := TextContent (unavailable p)\<rparr>)))"
    if ex: "elems pg (meta_id bb) \<noteq> None \<and> elems pg (meta_id rn) \<noteq> None"
  proof -
    let ?d = "\<lambda>p. settles env (slug p) \<and> elems pg (meta_id p) \<noteq> None"
    from assms ex have allp: "launched ?d [bb, rn] = [bb, rn]"
      by simp
    have pst: "fst (main_plain env pg) = Some (Inr ())"
      using assms ex by (simp add: main_plain_status panelBlock_plain_completes)
    have pev: "events (snd (main_plain env pg)) =
          events pg @ panelTrace_plain env bb pg @ panelTrace_plain env rn pg"
      unfolding main_plain_events allp by simp
    have peach: "(\<forall>e. fst (panelBlock_plain env p pg) \<noteq> Some (Inl e)) \<and>
           elems (snd (main_plain env pg)) (meta_id p) =
             elems (snd (panelBlock_plain env p pg)) (meta_id p) \<and>
           (\<forall>e el. fst (tryBody_plain env p pg) = Some (Inl e) \<and> elems pg (meta_id p) = Some el \<longrightarrow>
              elems (snd (main_plain env pg)) (meta_id p) =
                Some (el\<lparr>content := TextContent (unavailable p)\<rparr>))"
      if "p \<in> set [bb, rn]" for p
    proof -
      from that allp have "p \<in> set (launched ?d [bb, rn])"
        by simp
      then have w: "elems (snd (main_plain env pg)) (meta_id p) =
                    elems (snd (panelBlock_plain env p pg)) (meta_id p)"
        by (rule main_plain_written)
      from that ex have "elems pg (meta_id p) \<noteq> None"
        by auto
      then show ?thesis
        using w panelBlock_plain_fallback [of env p pg]
        by (auto simp add: panelBlock_plain_completes)
    qed
    from pst pev peach show ?thesis by blast
  qed
  from st ev each plain show ?thesis by blast
qed

theorem panel_failure_isolated_witness:
  "settles env0 (slug ypll) \<and> settles env0 (slug un) \<and>
   settles env0 (slug bb) \<and> settles env0 (slug rn) \<and>
   fst (tryBody env0 bb page0) = Some (Inl (Error ''Failed to load broadband_adoption_households_share'')) \<and>
   elems page0 (meta_id bb) = Some div0 \<and>
   fst (main env0 page0) = Some (Inr ()) \<and>
   elems (snd (main env0 page0)) ''meta-broadband'' =
     Some (div0\<lparr>content := TextContent ''Broadband data unavailable.''\<rparr>) \<and>
   map_option content (elems (snd (main env0 page0)) ''meta-renewables'') =
     Some (InnerHTML (metaHtml link0
                        ''1/1/2024, 12:00:00 AM''
                        ''data/v1/electricity_renewables_generation_share.json''
                        ''data/v1/csv/electricity_renewables_generation_share.csv''
                        ''<li>first</li><li>second</li>'')) \<and>
   fst (tryBody_plain env0 bb page0) = Some (Inl (Error ''Failed to load broadband_adoption_households_share'')) \<and>
   elems page0 (meta_id rn) \<noteq> None \<and>
   fst (main_plain env0 page0) = Some (Inr ()) \<and>
   elems (snd (main_plain env0 page0)) ''meta-broadband'' =
     Some (div0\<lparr>content := TextContent ''Broadband data unavailable.''\<rparr>) \<and>
   map_option content (elems (snd (main_plain env0 page0)) ''meta-renewables'') =
     Some (InnerHTML (metaHtml_plain link0
                        ''1/1/2024, 12:00:00 AM''
                        ''<li>first</li><li>second</li>''))"
proof -
  have s1: "settles env0 (slug ypll)" and s2: "settles env0 (slug un)"
    and s3: "settles env0 (slug bb)" and s4: "settles env0 (slug rn)"
    by (simp_all add: settles_def loadResult_def loadMetric_def Let_def input_defs)
  have t1: "fst (tryBody env0 bb page0) =
            Some (Inl (Error ''Failed to load broadband_adoption_households_share''))"
    by (simp add: tryBody_def loadMetric_def Let_def input_defs)
  have t2: "fst (tryBody_plain env0 bb page0) =
            Some (Inl (Error ''Failed to load broadband_adoption_households_share''))"
    by (simp add: tryBody_plain_def loadMetric_def Let_def input_defs)
  have e1: "elems page0 (meta_id bb) = Some div0" and e2: "elems page0 (meta_id rn) = Some div0"
    by (simp_all add: page0_def bb_def rn_def)
  have m1: "meta_id bb = ''meta-broadband''" and m2: "meta_id rn = ''meta-renewables''"
    and u1: "unavailable bb = ''Broadband data unavailable.''"
    by (simp_all add: bb_def rn_def)
  have r1: "map_option content (elems (snd (panelBlock env0 rn page0)) (meta_id rn)) =
     Some (InnerHTML (metaHtml link0
                        ''1/1/2024, 12:00:00 AM''
                        ''data/v1/electricity_renewables_generation_share.json''
                        ''data/v1/csv/electricity_renewables_generation_share.csv''
                        ''<li>first</li><li>second</li>''))"
    by (simp add: run_defs input_defs Date_toLocaleString_def jsonUrl_def csvUrl_def link0_def)
  have r2: "map_option content (elems (snd (panelBlock_plain env0 rn page0)) (meta_id rn)) =
     Some (InnerHTML (metaHtml_plain link0
                        ''1/1/2024, 12:00:00 AM''
                        ''<li>first</li><li>second</li>''))"
    by (simp add: run_defs input_defs Date_toLocaleString_def link0_def)
  note iso = panel_failure_isolated [OF s1 s2 s3 s4, of page0]
  have in_bb: "bb \<in> set [ypll, un, bb, rn]" and in_rn: "rn \<in> set [ypll, un, bb, rn]"
    and pin_bb: "bb \<in> set [bb, rn]" and pin_rn: "rn \<in> set [bb, rn]"
    by simp_all
  note each = iso [THEN conjunct2, THEN conjunct2, THEN conjunct1, THEN bspec]
  from e1 e2 have ex: "elems page0 (meta_id bb) \<noteq> None \<and> elems page0 (meta_id rn) \<noteq> None"
    by simp
  note plain = iso [THEN conjunct2, THEN conjunct2, THEN conjunct2, THEN mp, OF ex]
  note peach = plain [THEN conjunct2, THEN conjunct2, THEN bspec]
  from iso have a1: "fst (main env0 page0) = Some (Inr ())"
    by (rule conjunct1)
  from each [OF in_bb] t1 e1 have a2: "elems (snd (main env0 page0)) (meta_id bb) =
      Some (div0\<lparr>content := TextContent (unavailable bb)\<rparr>)"
    by blast
  from each [OF in_rn] have a3: "elems (snd (main env0 page0)) (meta_id rn) =
      elems (snd (panelBlock env0 rn page0)) (meta_id rn)"
    by blast
  from plain have b1: "fst (main_plain env0 page0) = Some (Inr ())"
    by (rule conjunct1)
  from peach [OF pin_bb] t2 e1 have b2: "elems (snd (main_plain env0 page0)) (meta_id bb) =
      Some (div0\<lparr>content := TextContent (unavailable bb)\<rparr>)"
    by blast
  from peach [OF pin_rn] have b3: "elems (snd (main_plain env0 page0)) (meta_id rn) =
      elems (snd (panelBlock_plain env0 rn page0)) (meta_id rn)"
    by blast
  note c1 = r1 [folded a3] and c2 = r2 [folded b3]
  from s1 s2 s3 s4 t1 t2 e1 e2 a1 a2 b1 b2 c1 c2 show ?thesis
    unfolding m1 m2 u1 by simp
qed

section \<open>The order in which panels are launched\<close>

text \<open>
  Claim C3, as the code has it. The panels are not launched side by side: both
  orchestrators are one \<^verbatim>\<open>async\<close> function whose blocks run one after the other, so the
  events of a run are the events of the first panel, then those of the second, and so
  on, and a panel is started only if every block before it has completed. In
  particular a load that never settles keeps all later panels from being launched.
  Inside a panel the load comes first: the panel's events begin with its one request,
  no other request follows, and while the load has not settled nothing else happens.
\<close>

theorem panels_run_in_sequence:
  "events (snd (main env pg)) =
     events pg @ concat (map (\<lambda>p. panelTrace env p pg)
                           (launched (\<lambda>p. settles env (slug p)) [ypll, un, bb, rn])) \<and>
   events (snd (main_plain env pg)) =
     events pg @ concat (map (\<lambda>p. panelTrace_plain env p pg)
                           (launched (\<lambda>p. settles env (slug p) \<and> elems pg (meta_id p) \<noteq> None)
                              [bb, rn])) \<and>
   (\<forall>p. (\<exists>rest. panelTrace env p pg = Fetch (loadRequest (slug p)) # rest \<and>
                 \<not> list_ex isFetch rest) \<and>
        (\<exists>rest. panelTrace_plain env p pg = Fetch (loadRequest (slug p)) # rest \<and>
                 \<not> list_ex isFetch rest) \<and>
        (\<not> settles env (slug p) \<longrightarrow>
           panelTrace env p pg = [Fetch (loadRequest (slug p))] \<and>
           panelTrace_plain env p pg = [Fetch (loadRequest (slug p))]))"
  using main_events [of env pg] main_plain_events [of env pg]
    panelTrace_head [of env _ pg] panelTrace_plain_head [of env _ pg]
    panelTrace_stuck [of env _ pg] panelTrace_plain_stuck [of env _ pg]
  by blast

theorem panels_run_in_sequence_witness:
  "\<not> settles env_stall (slug ypll) \<and>
   events (snd (main env_stall page0)) = [Fetch (loadRequest ''public_health_ypll75_rate'')] \<and>
   map isFetch (events (snd (main env0 page0))) =
     [True, False, False, True, False, False, True, False, False, True, False, False] \<and>
   map isFetch (events (snd (main_plain env0 page0))) =
     [True, False, False, True, False, False]"
proof -
  have stall: "\<not> settles env_stall (slug ypll)"
    by (simp add: settles_def loadResult_def loadMetric_def Let_def env_stall_def input_defs)
  have s: "settles env0 (slug ypll)" "settles env0 (slug un)"
    "settles env0 (slug bb)" "settles env0 (slug rn)"
    by (simp_all add: settles_def loadResult_def loadMetric_def Let_def input_defs)
  have e: "elems page0 (meta_id bb) \<noteq> None" "elems page0 (meta_id rn) \<noteq> None"
    by (simp_all add: page0_def bb_def rn_def)
  have ev: "events page0 = []"
    by (simp add: page0_def)
  have t: "map isFetch (panelTrace env0 ypll page0) = [True, False, False]"
    "map isFetch (panelTrace env0 un page0) = [True, False, False]"
    "map isFetch (panelTrace env0 bb page0) = [True, False, False]"
    "map isFetch (panelTrace env0 rn page0) = [True, False, False]"
    "map isFetch (panelTrace_plain env0 bb page0) = [True, False, False]"
    "map isFetch (panelTrace_plain env0 rn page0) = [True, False, False]"
    by (simp_all add: panelTrace_def panelTrace_plain_def blockTrace_def run_defs input_defs)
  note seq = panels_run_in_sequence [of env_stall page0] panels_run_in_sequence [of env0 page0]
  from seq(1) stall ev
  have a: "events (snd (main env_stall page0)) = [Fetch (loadRequest (slug ypll))]"
    by simp
  from seq(2) s ev t
  have b: "map isFetch (events (snd (main env0 page0))) =
     [True, False, False, True, False, False, True, False, False, True, False, False]"
    by simp
  from seq(2) s e ev t
  have c: "map isFetch (events (snd (main_plain env0 page0))) =
     [True, False, False, True, False, False]"
    by simp
  from stall a b c show ?thesis
    by (simp add: ypll_def)
qed

text \<open>The claim as the specification states it fails: when the transport never answers
  the first panel's request, the run stays suspended there, and the only request ever
  issued is that of the first panel; the loads of the other three panels are not
  started.\<close>

theorem panels_not_concurrent_counterexample:
  "fst (main env_stall page0) = None \<and>
   events (snd (main env_stall page0)) =
     [Fetch \<lparr>url = ''data/v1/public_health_ypll75_rate.json'', cache = ''no-store''\<rparr>]"
  by (simp add: main_def run_defs env_stall_def input_defs)

section \<open>The metadata fragment\<close>







text \<open>
  Claim C7. The two download links of the themed formatter are functions of the slug
  alone: \<^verbatim>\<open>data/v1/<slug>.json\<close> and \<^verbatim>\<open>data/v1/csv/<slug>.csv\<close>. Whatever the payload and the
  host, a fragment that the formatter produces carries exactly these two paths in its
  link slots, and writing it issues no request: the requests among the page's events
  are the same before and after.
\<close>

theorem download_urls_from_slug:
  "jsonUrl s = ''data/v1/'' @ s @ ''.json'' \<and>
   csvUrl s = ''data/v1/csv/'' @ s @ ''.csv'' \<and>
   (\<forall>html. metaFragment env s payload = Inr html \<longrightarrow>
      html = metaHtml (payloadSrcLine env payload) (payloadUpdated env payload)
               (''data/v1/'' @ s @ ''.json'') (''data/v1/csv/'' @ s @ ''.csv'')
               (payloadNotes env payload)) \<and>
   filter isFetch (events (snd (setMetaAndDownloads env s i payload pg))) =
     filter isFetch (events pg)"
proof (intro conjI allI impI)
  fix html
  assume a: "metaFragment env s payload = Inr html"
  note d = metaFragment_Inr_defined [OF a]
  from a d show "html = metaHtml (payloadSrcLine env payload) (payloadUpdated env payload)
               (''data/v1/'' @ s @ ''.json'') (''data/v1/csv/'' @ s @ ''.csv'')
               (payloadNotes env payload)"
    by (simp add: metaFragment_cases jsonUrl_def csvUrl_def split: if_splits)
qed (simp_all add: jsonUrl_def csvUrl_def setMetaAndDownloads_fetches)

theorem download_urls_from_slug_witness:
  \<open>metaFragment env0 ''m1'' doc0 =
     Inr (metaHtml ''<a href="https://example.org/src" target="_blank" rel="noopener">Source</a>''
            ''1/1/2024, 12:00:00 AM''
            ''data/v1/m1.json'' ''data/v1/csv/m1.csv'' ''<li>first</li><li>second</li>'') \<and>
   jsonUrl ''m1'' = ''data/v1/m1.json'' \<and> csvUrl ''m1'' = ''data/v1/csv/m1.csv'' \<and>
   filter isFetch (events (snd (setMetaAndDownloads env0 ''m1'' ''meta-ypll'' doc0 page0))) = []\<close>
proof -
  have a: \<open>metaFragment env0 ''m1'' doc0 =
     Inr (metaHtml ''<a href="https://example.org/src" target="_blank" rel="noopener">Source</a>''
            ''1/1/2024, 12:00:00 AM''
            ''data/v1/m1.json'' ''data/v1/csv/m1.csv'' ''<li>first</li><li>second</li>'')\<close>
    by (simp add: metaFragment_def notesItems_def listItem_def srcLine_def js_or_def
        Date_toLocaleString_def jsonUrl_def csvUrl_def doc0_def env0_def)
  have ev: "events page0 = []"
    by (simp add: page0_def)
  from download_urls_from_slug [of "''m1''" env0 doc0 "''meta-ypll''" page0] a ev
  show ?thesis by simp
qed

text \<open>
  Claim C10, as the code has it. Given a payload object and an existing container, the
  formatter does not throw exactly when
  \<^item> the payload's \<^verbatim>\<open>notes\<close> is falsy (absent, \<^verbatim>\<open>null\<close>, empty string, zero, \<^verbatim>\<open>false\<close>) or an
    array whose entries can all be converted to a string,
  \<^item> \<^verbatim>\<open>source.human_url\<close> is falsy or can be converted to a string, and
  \<^item> \<^verbatim>\<open>last_updated_utc\<close> can be converted to a string,

  where every value can be converted except an object that has a property of its own
  named \<^verbatim>\<open>toString\<close> and an array with such an entry. It then writes the template,
  written out below, to the container; an absent source gives the fallback attribution,
  absent notes give an empty list slot, and a missing or unparseable \<^verbatim>\<open>last_updated_utc\<close>
  gives the text \<^verbatim>\<open>Invalid Date\<close>. In every other case the formatter throws a TypeError and
  writes nothing.
\<close>

theorem metadata_formatter_degrades:
  assumes "elems pg i = Some el" and "payload = JObj kvs"
  shows
    \<open>(formattable env payload \<longrightarrow>
        fst (setMetaAndDownloads env s i payload pg) = Inr () \<and>
        elems (snd (setMetaAndDownloads env s i payload pg)) i =
          Some (el\<lparr>content := InnerHTML
            (nl @ ''    <div>'' @ payloadSrcLine env payload @
             '' '' @ middot @ '' Updated: '' @ payloadUpdated env payload @ '' '' @ middot @
             nl @ ''      <a href="data/v1/'' @ s @ ''.json" target="_blank" rel="noopener">Download JSON</a> '' @ middot @
             nl @ ''      <a href="data/v1/csv/'' @ s @ ''.csv"  target="_blank" rel="noopener">Download CSV</a></div>'' @
             nl @ ''    '' @
             (if payloadNotes env payload = [] then []
              else ''<ul>'' @ payloadNotes env payload @ ''</ul>'') @
             nl @ ''  '')\<rparr>) \<and>
        fst (setMeta env i payload pg) = Inr () \<and>
        elems (snd (setMeta env i payload pg)) i =
          Some (el\<lparr>content := InnerHTML
            (nl @ ''    <div>'' @ payloadSrcLine env payload @
             '' '' @ middot @ '' Updated: '' @ payloadUpdated env payload @ ''</div>'' @
             nl @ ''    '' @
             (if payloadNotes env payload = [] then []
              else ''<ul>'' @ payloadNotes env payload @ ''</ul>'') @
             nl @ ''  '')\<rparr>)) \<and>
     (\<not> formattable env payload \<longrightarrow>
        setMetaAndDownloads env s i payload pg = (Inl TypeError, pg) \<and>
        setMeta env i payload pg = (Inl TypeError, pg)) \<and>
     (field payload ''source'' = JUndefined \<longrightarrow>
        payloadSrcLine env payload = ''Source: federal API'') \<and>
     (field payload ''notes'' = JUndefined \<longrightarrow> payloadNotes env payload = []) \<and>
     (field payload ''last_updated_utc'' = JUndefined \<or>
      (\<exists>t. field payload ''last_updated_utc'' = JStr t \<and> Date_parse env t = None) \<longrightarrow>
        payloadUpdated env payload = ''Invalid Date'')\<close>
proof -
  from assms(2) have d: "payload \<noteq> JUndefined" "payload \<noteq> JNull"
    by simp_all
  have ok: \<open>fst (setMetaAndDownloads env s i payload pg) = Inr () \<and>
        elems (snd (setMetaAndDownloads env s i payload pg)) i =
          Some (el\<lparr>content := InnerHTML
            (nl @ ''    <div>'' @ payloadSrcLine env payload @
             '' '' @ middot @ '' Updated: '' @ payloadUpdated env payload @ '' '' @ middot @
             nl @ ''      <a href="data/v1/'' @ s @ ''.json" target="_blank" rel="noopener">Download JSON</a> '' @ middot @
             nl @ ''      <a href="data/v1/csv/'' @ s @ ''.csv"  target="_blank" rel="noopener">Download CSV</a></div>'' @
             nl @ ''    '' @
             (if payloadNotes env payload = [] then []
              else ''<ul>'' @ payloadNotes env payload @ ''</ul>'') @
             nl @ ''  '')\<rparr>) \<and>
        fst (setMeta env i payload pg) = Inr () \<and>
        elems (snd (setMeta env i payload pg)) i =
          Some (el\<lparr>content := InnerHTML
            (nl @ ''    <div>'' @ payloadSrcLine env payload @
             '' '' @ middot @ '' Updated: '' @ payloadUpdated env payload @ ''</div>'' @
             nl @ ''    '' @
             (if payloadNotes env payload = [] then []
              else ''<ul>'' @ payloadNotes env payload @ ''</ul>'') @
             nl @ ''  '')\<rparr>)\<close>
    if f: "formattable env payload"
  proof -
    from f have a: "metaFragment env s payload =
        Inr (metaHtml (payloadSrcLine env payload) (payloadUpdated env payload)
               (jsonUrl s) (csvUrl s) (payloadNotes env payload))"
      by (simp add: metaFragment_cases [OF d])
    from f have b: "metaFragment_plain env payload =
        Inr (metaHtml_plain (payloadSrcLine env payload) (payloadUpdated env payload)
               (payloadNotes env payload))"
      by (simp add: metaFragment_plain_cases [OF d])
    from setMetaAndDownloads_written [OF assms(1) a] setMeta_written [OF assms(1) b]
    show ?thesis
      by (simp add: metaHtml_def metaHtml_plain_def notesBlock_def jsonUrl_def csvUrl_def)
  qed
  have bad: "setMetaAndDownloads env s i payload pg = (Inl TypeError, pg) \<and>
        setMeta env i payload pg = (Inl TypeError, pg)"
    if "\<not> formattable env payload"
    using that
    by (simp add: setMetaAndDownloads_def setMeta_def metaFragment_cases [OF d]
        metaFragment_plain_cases [OF d])
  from ok bad payloadSrcLine_absent [of payload env] payloadNotes_absent [of payload env]
    payloadUpdated_invalid [of payload env]
  show ?thesis
    by blast
qed

theorem metadata_formatter_degrades_witness:
  "elems page0 ''meta-ypll'' = Some div0 \<and>
   formattable env0 (JObj [(''last_updated_utc'', JStr ''soon'')]) \<and>
   field (JObj [(''last_updated_utc'', JStr ''soon'')]) ''source'' = JUndefined \<and>
   field (JObj [(''last_updated_utc'', JStr ''soon'')]) ''notes'' = JUndefined \<and>
   field (JObj [(''last_updated_utc'', JStr ''soon'')]) ''last_updated_utc'' = JStr ''soon'' \<and>
   Date_parse env0 ''soon'' = None \<and>
   fst (setMetaAndDownloads env0 ''m1'' ''meta-ypll'' (JObj [(''last_updated_utc'', JStr ''soon'')]) page0)
     = Inr () \<and>
   elems (snd (setMeta env0 ''meta-ypll'' (JObj [(''last_updated_utc'', JStr ''soon'')]) page0))
      ''meta-ypll'' =
     Some (div0\<lparr>content := InnerHTML
       (nl @ ''    <div>Source: federal API '' @ middot @ '' Updated: Invalid Date</div>'' @
        nl @ ''    '' @ nl @ ''  '')\<rparr>) \<and>
   \<not> formattable env0 (JObj [(''notes'', JArr [JObj [(''toString'', JNum 1)]])]) \<and>
   setMetaAndDownloads env0 ''m1'' ''meta-ypll''
     (JObj [(''notes'', JArr [JObj [(''toString'', JNum 1)]])]) page0 = (Inl TypeError, page0) \<and>
   \<not> formattable env0 (JObj [(''last_updated_utc'', JObj [(''toString'', JNum 1)])]) \<and>
   setMeta env0 ''meta-ypll''
     (JObj [(''last_updated_utc'', JObj [(''toString'', JNum 1)])]) page0 = (Inl TypeError, page0)"
proof -
  let ?p = "JObj [(''last_updated_utc'', JStr ''soon'')]"
  let ?q = "JObj [(''notes'', JArr [JObj [(''toString'', JNum 1)]])]"
  let ?r = "JObj [(''last_updated_utc'', JObj [(''toString'', JNum 1)])]"
  have e: "elems page0 ''meta-ypll'' = Some div0"
    by (simp add: page0_def)
  have f: "formattable env0 ?p" "field ?p ''source'' = JUndefined"
    "field ?p ''notes'' = JUndefined" "field ?p ''last_updated_utc'' = JStr ''soon''"
    "Date_parse env0 ''soon'' = None"
    "\<not> formattable env0 ?q" "\<not> formattable env0 ?r"
    by (simp_all add: format_defs env0_def)
  note m1 = metadata_formatter_degrades
    [where pg = page0 and i = "''meta-ypll''" and el = div0 and payload = "JObj [(''last_updated_utc'', JStr ''soon'')]"
       and kvs = "[(''last_updated_utc'', JStr ''soon'')]" and env = env0 and s = "''m1''", OF e refl]
  note m2 = metadata_formatter_degrades
    [where pg = page0 and i = "''meta-ypll''" and el = div0 and payload = "JObj [(''notes'', JArr [JObj [(''toString'', JNum 1)]])]"
       and kvs = "[(''notes'', JArr [JObj [(''toString'', JNum 1)]])]" and env = env0 and s = "''m1''", OF e refl]
  note m3 = metadata_formatter_degrades
    [where pg = page0 and i = "''meta-ypll''" and el = div0 and payload = "JObj [(''last_updated_utc'', JObj [(''toString'', JNum 1)])]"
       and kvs = "[(''last_updated_utc'', JObj [(''toString'', JNum 1)])]" and env = env0 and s = "''m1''", OF e refl]
  from m1 f have s: "payloadSrcLine env0 ?p = ''Source: federal API''"
    "payloadNotes env0 ?p = []" "payloadUpdated env0 ?p = ''Invalid Date''"
    by simp_all
  from m1 f(1) have a1:
    "fst (setMetaAndDownloads env0 ''m1'' ''meta-ypll'' ?p page0) = Inr ()"
    by simp
  from m1 f(1) s have a2: "elems (snd (setMeta env0 ''meta-ypll'' ?p page0)) ''meta-ypll'' =
     Some (div0\<lparr>content := InnerHTML
       (nl @ ''    <div>Source: federal API '' @ middot @ '' Updated: Invalid Date</div>'' @
        nl @ ''    '' @ nl @ ''  '')\<rparr>)"
    by simp
  from m2 f(6) have a3:
    "setMetaAndDownloads env0 ''m1'' ''meta-ypll'' ?q page0 = (Inl TypeError, page0)"
    by simp
  from m3 f(7) have a4: "setMeta env0 ''meta-ypll'' ?r page0 = (Inl TypeError, page0)"
    by simp
  from e f a1 a2 a3 a4 show ?thesis
    by simp
qed

text \<open>The claim as stated, that the formatter throws for no payload object, fails: a
  payload whose \<^verbatim>\<open>notes\<close> is a string makes both variants throw.\<close>

theorem metadata_formatter_throws_counterexample:
  "fst (setMetaAndDownloads env0 ''m1'' ''meta-ypll''
          (JObj [(''notes'', JStr ''see methodology'')]) page0) = Inl TypeError \<and>
   fst (setMeta env0 ''meta-ypll'' (JObj [(''notes'', JStr ''see methodology'')]) page0)
     = Inl TypeError"
  by (simp add: setMetaAndDownloads_def setMeta_def metaFragment_def metaFragment_plain_def
      notesItems_def js_or_def)

section \<open>The chart configuration handed to the charting library\<close>

text \<open>
  Claim C4, as the code has it. For a document whose \<^verbatim>\<open>years\<close>, \<^verbatim>\<open>hawaii\<close> and
  \<^verbatim>\<open>other_states_avg\<close> are arrays of equal length, both variants of \<open>makeLineChart\<close> hand the
  charting library a configuration with exactly two series, labelled with the region's
  name and \<^verbatim>\<open>Other U.S. States (avg)\<close>, each with as many points as there are years, and
  the call succeeds whenever the library's constructor does not throw. In the themed
  variant the second series has the dash pattern \<^verbatim>\<open>[6, 4]\<close>, the first has none, and the
  two take the two theme colours. The plain variant sets neither dash nor colour.
\<close>

theorem chart_has_two_series:
  assumes "years = JArr ys" and "hawaii = JArr hs" and "other = JArr os"
    and "length hs = length ys" and "length os = length ys"
  shows
    "(Chart env ctx (chartConfig env years hawaii other title unit) = None \<longrightarrow>
        makeLineChart env ctx years hawaii other title unit pg =
          (Inr (), emit (NewChart ctx (chartConfig env years hawaii other title unit)) pg)) \<and>
     (Chart env ctx (chartConfig_plain years hawaii other title unit) = None \<longrightarrow>
        makeLineChart_plain env ctx years hawaii other title unit pg =
          (Inr (), emit (NewChart ctx (chartConfig_plain years hawaii other title unit)) pg)) \<and>
     labels (chartConfig env years hawaii other title unit) = years \<and>
     labels (chartConfig_plain years hawaii other title unit) = years \<and>
     map label (datasets (chartConfig env years hawaii other title unit)) =
       [''Hawai'' @ okina @ ''i'', ''Other U.S. States (avg)''] \<and>
     map label (datasets (chartConfig_plain years hawaii other title unit)) =
       [''Hawai'' @ okina @ ''i'', ''Other U.S. States (avg)''] \<and>
     map (\<lambda>d. array_length (data d)) (datasets (chartConfig env years hawaii other title unit)) =
       [array_length years, array_length years] \<and>
     map (\<lambda>d. array_length (data d)) (datasets (chartConfig_plain years hawaii other title unit)) =
       [array_length years, array_length years] \<and>
     array_length years = Some (length ys) \<and>
     map borderDash (datasets (chartConfig env years hawaii other title unit)) =
       [None, Some [6, 4]] \<and>
     map borderColor (datasets (chartConfig env years hawaii other title unit)) =
       [Some (HI env), Some (OTHER env)] \<and>
     map borderDash (datasets (chartConfig_plain years hawaii other title unit)) = [None, None] \<and>
     map borderColor (datasets (chartConfig_plain years hawaii other title unit)) = [None, None]"
  using assms
  by (simp add: makeLineChart_def makeLineChart_plain_def new_Chart_def chartConfig_def
      chartConfig_plain_def)

theorem chart_has_two_series_witness:
  "length [JNum 1, JNull] = length [JNum 2019, JNum 2020] \<and>
   length [JNum 2, JNum (5 / 2)] = length [JNum 2019, JNum 2020] \<and>
   Chart env0 ''chart-ypll''
     (chartConfig env0 (JArr [JNum 2019, JNum 2020]) (JArr [JNum 1, JNull])
        (JArr [JNum 2, JNum (5 / 2)]) (JStr ''T'') (JStr ''%'')) = None \<and>
   fst (makeLineChart env0 ''chart-ypll'' (JArr [JNum 2019, JNum 2020]) (JArr [JNum 1, JNull])
          (JArr [JNum 2, JNum (5 / 2)]) (JStr ''T'') (JStr ''%'') page0) = Inr () \<and>
   map (\<lambda>d. array_length (data d))
     (datasets (chartConfig env0 (JArr [JNum 2019, JNum 2020]) (JArr [JNum 1, JNull])
        (JArr [JNum 2, JNum (5 / 2)]) (JStr ''T'') (JStr ''%''))) = [Some 2, Some 2] \<and>
   map borderDash
     (datasets (chartConfig env0 (JArr [JNum 2019, JNum 2020]) (JArr [JNum 1, JNull])
        (JArr [JNum 2, JNum (5 / 2)]) (JStr ''T'') (JStr ''%''))) = [None, Some [6, 4]]"
proof -
  have l: "length [JNum 1, JNull] = length [JNum 2019, JNum 2020]"
    "length [JNum 2, JNum (5 / 2)] = length [JNum 2019, JNum 2020]"
    by simp_all
  have c: "Chart env0 ''chart-ypll''
     (chartConfig env0 (JArr [JNum 2019, JNum 2020]) (JArr [JNum 1, JNull])
        (JArr [JNum 2, JNum (5 / 2)]) (JStr ''T'') (JStr ''%'')) = None"
    by (simp add: env0_def)
  from chart_has_two_series [OF refl refl refl l, of env0 "''chart-ypll''" "JStr ''T''" "JStr ''%''" page0] c
  show ?thesis
    by simp
qed

text \<open>The claim as stated fails on the plain variant: its comparison series has no dash
  pattern, and neither series has a colour of its own.\<close>

theorem plain_chart_no_dash_counterexample:
  "map borderDash
     (datasets (chartConfig_plain (JArr [JNum 2019, JNum 2020]) (JArr [JNum 1, JNull])
        (JArr [JNum 2, JNum (5 / 2)]) (JStr ''T'') (JStr ''%''))) = [None, None] \<and>
   map borderColor
     (datasets (chartConfig_plain (JArr [JNum 2019, JNum 2020]) (JArr [JNum 1, JNull])
        (JArr [JNum 2, JNum (5 / 2)]) (JStr ''T'') (JStr ''%''))) = [None, None]"
  by (simp add: chartConfig_plain_def)

text \<open>
  Claim C6. The themed variant installs a tooltip label callback. When the unit is a
  non-empty string, every label ends with a space and the unit, whether the value is a
  number or absent, and the y axis shows the unit as its title. A number is printed by
  the host's \<^verbatim>\<open>toLocaleString\<close> with at most 2 fraction digits; an absent value (\<^verbatim>\<open>null\<close> or
  \<^verbatim>\<open>undefined\<close>) is printed as an em dash, not left out and not printed as zero. Without
  a unit there is no suffix and the axis title is hidden.
\<close>

theorem tooltip_and_axis_units:
  "tooltip_label (options (chartConfig env years hawaii other title unit)) =
     Some (tooltipLabel env unit) \<and>
   (unit = JStr u \<and> u \<noteq> [] \<longrightarrow>
      tooltipLabel env unit \<lparr>dataset_label = l, parsed_y = PNum v\<rparr> =
        Inr (l @ '': '' @ num_toLocaleString env v 2 @ '' '' @ u) \<and>
      tooltipLabel env unit \<lparr>dataset_label = l, parsed_y = PNull\<rparr> =
        Inr (l @ '': '' @ emdash @ '' '' @ u) \<and>
      tooltipLabel env unit \<lparr>dataset_label = l, parsed_y = PUndefined\<rparr> =
        Inr (l @ '': '' @ emdash @ '' '' @ u) \<and>
      y_title_display (options (chartConfig env years hawaii other title unit)) \<and>
      y_title_text (options (chartConfig env years hawaii other title unit)) = JStr u) \<and>
   (unit = JUndefined \<longrightarrow>
      tooltipLabel env unit \<lparr>dataset_label = l, parsed_y = PNum v\<rparr> =
        Inr (l @ '': '' @ num_toLocaleString env v 2) \<and>
      tooltipLabel env unit \<lparr>dataset_label = l, parsed_y = PNull\<rparr> = Inr (l @ '': '' @ emdash) \<and>
      tooltipLabel env unit \<lparr>dataset_label = l, parsed_y = PUndefined\<rparr> =
        Inr (l @ '': '' @ emdash) \<and>
      \<not> y_title_display (options (chartConfig env years hawaii other title unit)) \<and>
      y_title_text (options (chartConfig env years hawaii other title unit)) = JStr [])"
  by (simp add: chartConfig_def tooltipLabel_def js_or_def Let_def)

theorem tooltip_and_axis_units_witness:
  "JStr ''%'' = JStr ''%'' \<and> ''%'' \<noteq> [] \<and>
   tooltipLabel env0 (JStr ''%'') \<lparr>dataset_label = ''Other U.S. States (avg)'', parsed_y = PNum (5 / 2)\<rparr> =
     Inr (''Other U.S. States (avg): '' @ num_toLocaleString env0 (5 / 2) 2 @ '' %'') \<and>
   tooltipLabel env0 (JStr ''%'') \<lparr>dataset_label = ''Hawai'' @ okina @ ''i'', parsed_y = PNull\<rparr> =
     Inr (''Hawai'' @ okina @ ''i: '' @ emdash @ '' %'') \<and>
   y_title_text (options (chartConfig env0 (JArr [JNum 2019, JNum 2020]) (JArr [JNum 1, JNull])
        (JArr [JNum 2, JNum (5 / 2)]) (JStr ''T'') (JStr ''%''))) = JStr ''%''"
proof -
  have u: "JStr ''%'' = JStr ''%'' \<and> ''%'' \<noteq> []"
    by simp
  from tooltip_and_axis_units
         [of env0 "JArr [JNum 2019, JNum 2020]" "JArr [JNum 1, JNull]"
             "JArr [JNum 2, JNum (5 / 2)]" "JStr ''T''" "JStr ''%''" "''%''"
             "''Other U.S. States (avg)''" "5 / 2"]
       tooltip_and_axis_units
         [of env0 "JArr [JNum 2019, JNum 2020]" "JArr [JNum 1, JNull]"
             "JArr [JNum 2, JNum (5 / 2)]" "JStr ''T''" "JStr ''%''" "''%''"
             "''Hawai'' @ okina @ ''i''" "5 / 2"] u
  show ?thesis
    by simp
qed

end
